theory Spec2Isabelle
  imports Complex_Main
begin

section \<open>Python values shared by the three modules\<close>

text \<open>
  The sources are Python 2 modules (\<^verbatim>\<open>pylon/ud_opf.py\<close>, \<^verbatim>\<open>pylon/pdipm.py\<close>,
  \<^verbatim>\<open>pylon/dc_opf.py\<close>). Python floats are modelled by the reals, so rounding is
  idealised; the special values \<open>inf\<close>, \<open>-inf\<close> and \<open>nan\<close> are modelled where the
  code creates them (the bounds of \<^verbatim>\<open>pdipm\<close>). Every \<^verbatim>\<open>raise\<close> and every
  built-in exception the modelled statements can throw is a value of \<open>error\<close>.
\<close>

datatype error =
    ValueError string
  | IndexError
  | ZeroDivisionError
  | NotImplementedError string
  | NameError string
  | TypeError

text \<open>\<^verbatim>\<open>xs.index(v)\<close>: the position of the first element equal to \<open>v\<close>.\<close>

definition py_index :: "'a list \<Rightarrow> 'a \<Rightarrow> error + nat" where
  "py_index xs v =
     (if v \<in> set xs then Inr (length (takeWhile (\<lambda>y. y \<noteq> v) xs))
      else Inl (ValueError ''list.index(x): x not in list''))"

text \<open>A list comprehension whose element expression may raise.\<close>

fun map_err :: "('a \<Rightarrow> error + 'b) \<Rightarrow> 'a list \<Rightarrow> error + 'b list" where
  "map_err f [] = Inr []"
| "map_err f (v # vs) =
     (case f v of
        Inl e \<Rightarrow> Inl e
      | Inr y \<Rightarrow> (case map_err f vs of Inl e \<Rightarrow> Inl e | Inr ys \<Rightarrow> Inr (y # ys)))"

text \<open>The built-in \<^verbatim>\<open>max\<close> of a sequence keeps the first greatest element.\<close>

definition py_max :: "real list \<Rightarrow> error + real" where
  "py_max x =
     (case x of
        [] \<Rightarrow> Inl (ValueError ''max() arg is an empty sequence'')
      | v # vs \<Rightarrow> Inr (foldl (\<lambda>m w. if m < w then w else m) v vs))"

text \<open>
  \<^verbatim>\<open>random.choice(i)\<close> returns \<^verbatim>\<open>i[int(random() * len(i))]\<close>. The generator's
  draw is the parameter \<open>r\<close>; every position of \<open>i\<close> is reached by some draw.
\<close>

definition random_choice :: "'a list \<Rightarrow> nat \<Rightarrow> error + 'a" where
  "random_choice i r = (if i = [] then Inl IndexError else Inr (i ! (r mod length i)))"

section \<open>\<^verbatim>\<open>ud_opf.py\<close>: the tie-breaking maximum\<close>

text \<open>
  \<^verbatim>\<open>
  def fair_max(x):
      value = max(x)
      i = [x.index(v) for v in x if v == value]
      idx = random.choice(i)
      return idx, value
  \<close>
\<close>

definition fair_max :: "real list \<Rightarrow> nat \<Rightarrow> error + (nat \<times> real)" where
  "fair_max x r =
     (case py_max x of
        Inl e \<Rightarrow> Inl e
      | Inr value \<Rightarrow>
          (case map_err (py_index x) (filter (\<lambda>v. v = value) x) of
             Inl e \<Rightarrow> Inl e
           | Inr i \<Rightarrow>
               (case random_choice i r of
                  Inl e \<Rightarrow> Inl e
                | Inr idx \<Rightarrow> Inr (idx, value))))"

section \<open>\<^verbatim>\<open>pdipm.py\<close>: splitting the linear constraints\<close>

text \<open>
  The bounds handed to \<^verbatim>\<open>pdipm\<close> are floats that may be infinite
  (\<^verbatim>\<open>matrix(-Inf, x0.size)\<close> is the default lower bound), and \<^verbatim>\<open>uu - ll\<close> of two
  equal infinities is \<^verbatim>\<open>nan\<close>, which every comparison answers with False. The type
  \<open>pyfloat\<close> keeps these special values; finite values are reals.
\<close>

datatype pyfloat = NInf | Fin real | PInf | NaN

fun fsub :: "pyfloat \<Rightarrow> pyfloat \<Rightarrow> pyfloat" where
  "fsub (Fin a) (Fin b) = Fin (a - b)"
| "fsub NaN _ = NaN"
| "fsub _ NaN = NaN"
| "fsub PInf PInf = NaN"
| "fsub NInf NInf = NaN"
| "fsub PInf _ = PInf"
| "fsub NInf _ = NInf"
| "fsub (Fin a) PInf = NInf"
| "fsub (Fin a) NInf = PInf"

fun fabs :: "pyfloat \<Rightarrow> pyfloat" where
  "fabs (Fin a) = Fin \<bar>a\<bar>"
| "fabs NInf = PInf"
| "fabs PInf = PInf"
| "fabs NaN = NaN"

fun fneg :: "pyfloat \<Rightarrow> pyfloat" where
  "fneg (Fin a) = Fin (- a)"
| "fneg NInf = PInf"
| "fneg PInf = NInf"
| "fneg NaN = NaN"

fun flt :: "pyfloat \<Rightarrow> pyfloat \<Rightarrow> bool" where
  "flt (Fin a) (Fin b) = (a < b)"
| "flt NaN _ = False"
| "flt _ NaN = False"
| "flt _ NInf = False"
| "flt PInf _ = False"
| "flt NInf _ = True"
| "flt (Fin a) PInf = True"

fun fle :: "pyfloat \<Rightarrow> pyfloat \<Rightarrow> bool" where
  "fle (Fin a) (Fin b) = (a \<le> b)"
| "fle NaN _ = False"
| "fle _ NaN = False"
| "fle NInf _ = True"
| "fle _ PInf = True"
| "fle (Fin a) NInf = False"
| "fle PInf _ = False"

text \<open>\<^verbatim>\<open>EPS = 2**-52\<close>\<close>

definition EPS :: real where
  "EPS = 1 / 2 ^ 52"

text \<open>
  The outcome of lines 92--107 of \<^verbatim>\<open>pdipm\<close>: the four index lists and the
  equality block \<^verbatim>\<open>Ae, be\<close> and inequality block \<^verbatim>\<open>Ai, bi\<close> built from them.
\<close>

record linear_split =
  ieq :: "nat list"
  igt :: "nat list"
  ilt :: "nat list"
  ibx :: "nat list"
  Ae :: "real list list"
  be :: "pyfloat list"
  Ai :: "real list list"
  bi :: "pyfloat list"

text \<open>\<^verbatim>\<open>spmatrix(1.0, range(nx), range(nx))\<close>: the identity, as a list of rows.\<close>

definition eye :: "nat \<Rightarrow> real list list" where
  "eye n = map (\<lambda>i. map (\<lambda>j. if i = j then 1 else 0) [0..<n]) [0..<n]"

text \<open>
  \<^verbatim>\<open>
  if xmin is None: xmin = matrix(-Inf, x0.size)
  if xmax is None: xmax = matrix(Inf, x0.size)
  if A is None:
      A = spmatrix([], [], [], (0, 0)); l = matrix(); u = matrix()
  ...
  AA = sparse([spmatrix(1.0, range(nx), range(nx)), A])
  ll = matrix([xmin, l])
  uu = matrix([xmax, u])
  \<close>
  \<open>nx\<close> is \<^verbatim>\<open>x0.size[0]\<close>. A missing \<^verbatim>\<open>l\<close> or \<^verbatim>\<open>u\<close> next to a given \<^verbatim>\<open>A\<close> cannot
  be stacked (\<^verbatim>\<open>matrix([xmin, None])\<close> raises \<^verbatim>\<open>TypeError\<close>).
\<close>

definition merged_lower :: "nat \<Rightarrow> pyfloat list option \<Rightarrow> real list list option \<Rightarrow> pyfloat list option \<Rightarrow> error + pyfloat list" where
  "merged_lower nx xmin A l =
     (let xmin' = (case xmin of None \<Rightarrow> replicate nx NInf | Some v \<Rightarrow> v)
      in case A of
           None \<Rightarrow> Inr (xmin' @ [])
         | Some _ \<Rightarrow> (case l of None \<Rightarrow> Inl TypeError | Some l' \<Rightarrow> Inr (xmin' @ l')))"

definition merged_upper :: "nat \<Rightarrow> pyfloat list option \<Rightarrow> real list list option \<Rightarrow> pyfloat list option \<Rightarrow> error + pyfloat list" where
  "merged_upper nx xmax A u =
     (let xmax' = (case xmax of None \<Rightarrow> replicate nx PInf | Some v \<Rightarrow> v)
      in case A of
           None \<Rightarrow> Inr (xmax' @ [])
         | Some _ \<Rightarrow> (case u of None \<Rightarrow> Inl TypeError | Some u' \<Rightarrow> Inr (xmax' @ u')))"

text \<open>
  \<^verbatim>\<open>
  ieq = matrix([j for j, v in enumerate(abs(uu - ll)) if v < EPS])
  igt = matrix([j for j in range(len(ll)) if uu[j] >=  1e10 and ll[j]>-1e10])
  ilt = matrix([j for j in range(len(ll)) if ll[j] <= -1e10 and uu[j]< 1e10])
  ibx = matrix([j for j in range(len(ll))
                if (abs(uu[j] - ll[j]) > EPS) and
                (uu[j] < 1e10) and (ll[j] > -1e10)])
  Ae = AA[ieq, :]
  be = uu[ieq, :]
  Ai = sparse([AA[ilt, :], -AA[igt, :], AA[ibx, :], -AA[ibx, :]])
  bi = matrix([uu[ilt], -ll[igt], uu[ibx], -ll[ibx]])
  \<close>
  \<^verbatim>\<open>uu - ll\<close> of vectors of different lengths raises \<^verbatim>\<open>TypeError\<close>; selecting a row
  that \<^verbatim>\<open>AA\<close> does not have raises \<^verbatim>\<open>IndexError\<close>.
\<close>

definition split_rows :: "real list list \<Rightarrow> pyfloat list \<Rightarrow> pyfloat list \<Rightarrow> error + linear_split" where
  "split_rows AA ll uu =
     (if length uu \<noteq> length ll then Inl TypeError
      else
        let ieq' = filter (\<lambda>j. flt (fabs (fsub (uu ! j) (ll ! j))) (Fin EPS)) [0..<length ll];
            igt' = filter (\<lambda>j. fle (Fin 10000000000) (uu ! j) \<and> flt (Fin (- 10000000000)) (ll ! j)) [0..<length ll];
            ilt' = filter (\<lambda>j. fle (ll ! j) (Fin (- 10000000000)) \<and> flt (uu ! j) (Fin 10000000000)) [0..<length ll];
            ibx' = filter (\<lambda>j. flt (Fin EPS) (fabs (fsub (uu ! j) (ll ! j)))
                               \<and> flt (uu ! j) (Fin 10000000000) \<and> flt (Fin (- 10000000000)) (ll ! j)) [0..<length ll]
        in if list_ex (\<lambda>j. length AA \<le> j) (ieq' @ ilt' @ igt' @ ibx') then Inl IndexError
           else Inr \<lparr> ieq = ieq', igt = igt', ilt = ilt', ibx = ibx',
                  Ae = map (\<lambda>j. AA ! j) ieq',
                  be = map (\<lambda>j. uu ! j) ieq',
                  Ai = map (\<lambda>j. AA ! j) ilt' @ map (\<lambda>j. map uminus (AA ! j)) igt'
                       @ map (\<lambda>j. AA ! j) ibx' @ map (\<lambda>j. map uminus (AA ! j)) ibx',
                  bi = map (\<lambda>j. uu ! j) ilt' @ map (\<lambda>j. fneg (ll ! j)) igt'
                       @ map (\<lambda>j. uu ! j) ibx' @ map (\<lambda>j. fneg (ll ! j)) ibx' \<rparr>)"

definition merged_rows :: "nat \<Rightarrow> real list list option \<Rightarrow> real list list" where
  "merged_rows nx A = eye nx @ (case A of None \<Rightarrow> [] | Some A' \<Rightarrow> A')"

definition pdipm_preprocess ::
  "nat \<Rightarrow> pyfloat list option \<Rightarrow> pyfloat list option \<Rightarrow> real list list option \<Rightarrow>
   pyfloat list option \<Rightarrow> pyfloat list option \<Rightarrow> error + linear_split" where
  "pdipm_preprocess nx xmin xmax A l u =
     (case merged_lower nx xmin A l of
        Inl e \<Rightarrow> Inl e
      | Inr ll \<Rightarrow>
          (case merged_upper nx xmax A u of
             Inl e \<Rightarrow> Inl e
           | Inr uu \<Rightarrow>
               split_rows (merged_rows nx A) ll uu))"

text \<open>The number of index lists among \<^verbatim>\<open>ieq, ilt, igt, ibx\<close> that hold row \<open>j\<close>.\<close>

definition row_classes :: "linear_split \<Rightarrow> nat \<Rightarrow> nat" where
  "row_classes s j = length (filter (\<lambda>c. j \<in> set c) [ieq s, ilt s, igt s, ibx s])"


section \<open>The network model\<close>

text \<open>
  The classes of buses, branches, generators, loads and of the network itself are not
  among the sources; the records hold the attributes that \<^verbatim>\<open>dc_opf.py\<close> and
  \<^verbatim>\<open>ud_opf.py\<close> read and write. Python objects are shared and mutated in place: a bus
  lists its generators, the network lists the same generators again, and a branch
  names its end buses. So objects live in a store, indexed by references, and every
  list of objects is a list of references; \<^verbatim>\<open>buses.index(v)\<close> compares references, as
  Python compares identities. Three attributes are renamed, since \<open>p\<close> and \<open>x\<close>
  are variable names here: a generator's \<^verbatim>\<open>p\<close> is \<open>p_out\<close>, a load's \<^verbatim>\<open>p\<close> is
  \<open>p_load\<close>, a branch's \<^verbatim>\<open>x\<close> is \<open>x_react\<close>.
\<close>

type_synonym ref = nat

record generator =
  online :: bool
  is_load :: bool
  p_min :: real
  cost_model :: string
  p_cost :: real
  pwl_points :: "(real \<times> real) list"
  cost_coeffs :: "real \<times> real \<times> real"
  p_min_bid :: real
  p_max_bid :: real
  p_out :: real
  p_despatch :: real
  mu_p_min :: real
  mu_p_max :: real
  mu_q_min :: real
  mu_q_max :: real

record bus =
  v_phase_guess :: real
  slack :: bool
  generators :: "ref list"
  p_supply :: real
  p_demand :: real
  g_shunt :: real
  v_amplitude :: real
  v_phase :: real
  p_lambda :: real
  q_lambda :: real
  mu_v_min :: real
  mu_v_max :: real

record branch =
  source_bus :: ref
  target_bus :: ref
  x_react :: real
  phase_shift :: real
  s_max :: real
  p_source :: real
  p_target :: real
  q_source :: real
  q_target :: real
  mu_s_source :: real
  mu_s_target :: real

record load =
  p_load :: real

record network =
  base_mva :: real
  bus_obj :: "ref \<Rightarrow> bus"
  branch_obj :: "ref \<Rightarrow> branch"
  generator_obj :: "ref \<Rightarrow> generator"
  connected_buses :: "ref list"
  online_branches :: "ref list"
  branches :: "ref list"
  all_generators :: "ref list"
  online_loads :: "load list"

text \<open>
  Modelled from the spec: the property \<^verbatim>\<open>online_generators\<close> of the network class,
  which is not among the sources. The spec has the online views "computed by filtering
  on each entity's flag" and "recomputed on demand"; \<^verbatim>\<open>ud_opf.py\<close> relies on it when
  it reads \<^verbatim>\<open>case.online_generators\<close> again after \<^verbatim>\<open>generator.online = False\<close>. The other
  views (\<^verbatim>\<open>connected_buses\<close>, \<^verbatim>\<open>online_branches\<close>, \<^verbatim>\<open>online_loads\<close>) are read only
  while no flag changes and are fields of the record.
\<close>

definition online_generators :: "network \<Rightarrow> ref list" where
  "online_generators c = filter (\<lambda>g. online (generator_obj c g)) (all_generators c)"

definition set_online :: "network \<Rightarrow> ref \<Rightarrow> bool \<Rightarrow> network" where
  "set_online c g b = c\<lparr>generator_obj := (generator_obj c)(g := (generator_obj c g)\<lparr>online := b\<rparr>)\<rparr>"

text \<open>Float division raises on a zero divisor.\<close>

definition py_div :: "real \<Rightarrow> real \<Rightarrow> error + real" where
  "py_div a b = (if b = 0 then Inl ZeroDivisionError else Inr (a / b))"

text \<open>
  \<^verbatim>\<open>round(v, 4)\<close> of Python 2: to four decimal places, halves away from zero.
\<close>

definition py_round4 :: "real \<Rightarrow> real" where
  "py_round4 v =
     (if 0 \<le> v then real_of_int \<lfloor>v * 10000 + 1 / 2\<rfloor> / 10000
      else - (real_of_int \<lfloor>- v * 10000 + 1 / 2\<rfloor> / 10000))"

section \<open>Facts about \<^verbatim>\<open>fair_max\<close>\<close>

lemma py_max_ge: "py_max x = Inr m \<Longrightarrow> v \<in> set x \<Longrightarrow> v \<le> m"
proof -
  have ge: "\<And>a. a \<le> foldl (\<lambda>m w. if m < w then w else m) a ws
      \<and> (\<forall>w \<in> set ws. w \<le> foldl (\<lambda>m w. if m < w then w else m) a ws)" for ws :: "real list"
  proof (induction ws)
    case Nil
    show ?case by simp
  next
    case (Cons w ws)
    show ?case using Cons [of "if a < w then w else a"] by (auto split: if_splits)
  qed
  assume "py_max x = Inr m" and "v \<in> set x"
  then show ?thesis using ge by (cases x) (auto simp: py_max_def)
qed

lemma py_max_mem: "py_max x = Inr m \<Longrightarrow> m \<in> set x"
proof -
  have mem: "\<And>a. foldl (\<lambda>m w. if m < w then w else m) a ws \<in> insert a (set ws)"
    for ws :: "real list"
  proof (induction ws)
    case Nil
    show ?case by simp
  next
    case (Cons w ws)
    show ?case using Cons [of "if a < w then w else a"] by (auto split: if_splits)
  qed
  assume "py_max x = Inr m"
  then show ?thesis using mem by (cases x) (auto simp: py_max_def)
qed

lemma map_err_py_index_same:
  "v \<in> set x \<Longrightarrow>
   map_err (py_index x) (replicate n v) = Inr (replicate n (length (takeWhile (\<lambda>y. y \<noteq> v) x)))"
  by (induction n) (simp_all add: py_index_def)

lemma filter_eq_replicate: "filter (\<lambda>v. v = a) x = replicate (length (filter (\<lambda>v. v = a) x)) a"
  by (induction x) simp_all

text \<open>
  Whatever the draw, \<^verbatim>\<open>fair_max\<close> returns the position of the first occurrence of the
  maximum: every entry of the list \<^verbatim>\<open>i\<close> is \<^verbatim>\<open>x.index(value)\<close>.
\<close>

lemma fair_max_first:
  assumes "x \<noteq> []"
  shows "\<exists>m. py_max x = Inr m \<and> fair_max x r = Inr (length (takeWhile (\<lambda>y. y \<noteq> m) x), m)"
proof -
  from assms obtain m where m: "py_max x = Inr m"
    by (cases x) (auto simp: py_max_def)
  then have mem: "m \<in> set x" by (rule py_max_mem)
  let ?n = "length (filter (\<lambda>v. v = m) x)"
  let ?k = "length (takeWhile (\<lambda>y. y \<noteq> m) x)"
  have pos: "0 < ?n" using mem by (simp add: filter_empty_conv)
  have "map_err (py_index x) (filter (\<lambda>v. v = m) x) = Inr (replicate ?n ?k)"
    using map_err_py_index_same [OF mem, of ?n] filter_eq_replicate [of m x] by simp
  moreover have "random_choice (replicate ?n ?k) r = Inr ?k"
    using pos by (simp add: random_choice_def)
  ultimately have "fair_max x r = Inr (?k, m)"
    using m by (simp add: fair_max_def)
  with m show ?thesis by blast
qed

section \<open>\<^verbatim>\<open>ud_opf.py\<close>: unit decommitment\<close>

text \<open>
  The OPF routine (\<^verbatim>\<open>DCOPF\<close> or \<^verbatim>\<open>ACOPF\<close> of the package, not among the sources) is
  a parameter: called on the case, it answers whether it converged and may change the
  case (it writes the multipliers) and its own attributes, of which the driver reads
  \<^verbatim>\<open>routine.f\<close>. \<open>'r\<close> is the routine object's state and \<open>f\<close> reads its \<^verbatim>\<open>f\<close>.
  The method \<^verbatim>\<open>total_cost\<close> of a generator is a parameter too.
\<close>

type_synonym 'r routine = "'r \<Rightarrow> network \<Rightarrow> bool \<times> 'r \<times> network"

text \<open>
  \<^verbatim>\<open>
  generators = case.online_generators
  loads      = case.online_loads
  online       = [g for g in generators if not g.is_load]
  online_vload = [g for g in generators if g.is_load]
  vload_capacity = sum([g.p_min for g in online_vload])
  load_capacity = sum([l.p for l in loads]) - vload_capacity
  p_min_tot = sum([g.p_min for g in online])
  \<close>
\<close>

definition online_units :: "network \<Rightarrow> ref list" where
  "online_units c = filter (\<lambda>g. \<not> is_load (generator_obj c g)) (online_generators c)"

definition load_capacity :: "network \<Rightarrow> real" where
  "load_capacity c =
     (let online_vload = filter (\<lambda>g. is_load (generator_obj c g)) (online_generators c);
          vload_capacity = sum_list (map (\<lambda>g. p_min (generator_obj c g)) online_vload)
      in sum_list (map p_load (online_loads c)) - vload_capacity)"

text \<open>Facts for the termination of the pre-pass.\<close>

lemma map_err_length: "map_err f xs = Inr ys \<Longrightarrow> length ys = length xs"
  by (induction xs arbitrary: ys) (auto split: sum.splits)

lemma length_takeWhile_neq: "m \<in> set x \<Longrightarrow> length (takeWhile (\<lambda>y. y \<noteq> m) x) < length x"
  by (induction x) auto

lemma fair_max_index: "fair_max x r = Inr (i, v) \<Longrightarrow> i < length x"
proof -
  assume a: "fair_max x r = Inr (i, v)"
  then have ne: "x \<noteq> []" by (auto simp: fair_max_def py_max_def)
  from fair_max_first [OF ne, of r] a obtain m where
    m: "py_max x = Inr m" and i: "i = length (takeWhile (\<lambda>y. y \<noteq> m) x)" by auto
  from py_max_mem [OF m] have "length (takeWhile (\<lambda>y. y \<noteq> m) x) < length x"
    by (rule length_takeWhile_neq)
  with i show ?thesis by simp
qed

lemma online_units_set_offline:
  "online_units (set_online c g False) = filter (\<lambda>h. h \<noteq> g) (online_units c)"
  by (auto simp: online_units_def online_generators_def set_online_def intro!: filter_cong)

lemma length_filter_remove: "g \<in> set xs \<Longrightarrow> length (filter (\<lambda>h. h \<noteq> g) xs) < length xs"
  by (induction xs) (auto simp: less_Suc_eq_le)

text \<open>
  \<^verbatim>\<open>
  while p_min_tot > load_capacity:
      i_stage += 1
      avg_pmin_cost = [g.total_cost(g.p_min) / g.p_min for g in online]
      g_idx, value = fair_max(avg_pmin_cost)
      generator = online[g_idx]
      generator.online = False
      online = [g for g in case.online_generators if not g.is_load]
      p_min_tot = sum([g.p_min for g in online])
  \<close>
  At the head of every iteration \<^verbatim>\<open>online\<close> is the list of online generators that are
  not loads and \<^verbatim>\<open>p_min_tot\<close> the sum of their \<^verbatim>\<open>p_min\<close>, so both are computed from
  the case. \<open>rnd k\<close> is the random draw of the iteration that starts at stage \<open>k\<close>.
  The loop ends: each iteration takes one generator offline.
\<close>

function decommit_pmin ::
  "(generator \<Rightarrow> real \<Rightarrow> real) \<Rightarrow> (nat \<Rightarrow> nat) \<Rightarrow> real \<Rightarrow> nat \<Rightarrow> network \<Rightarrow> error + (nat \<times> network)"
where
  "decommit_pmin total_cost rnd capacity i_stage c =
     (if capacity < sum_list (map (\<lambda>g. p_min (generator_obj c g)) (online_units c)) then
        (case map_err (\<lambda>g. py_div (total_cost (generator_obj c g) (p_min (generator_obj c g)))
                                  (p_min (generator_obj c g))) (online_units c) of
           Inl e \<Rightarrow> Inl e
         | Inr avg_pmin_cost \<Rightarrow>
             (case fair_max avg_pmin_cost (rnd i_stage) of
                Inl e \<Rightarrow> Inl e
              | Inr (g_idx, value) \<Rightarrow>
                  decommit_pmin total_cost rnd capacity (Suc i_stage)
                    (set_online c (online_units c ! g_idx) False)))
      else Inr (i_stage, c))"
  by pat_completeness auto

termination
proof (relation "measure (\<lambda>(total_cost, rnd, capacity, i_stage, c). length (online_units c))")
  show "wf (measure (\<lambda>(total_cost, rnd, capacity, i_stage, c). length (online_units c)))"
    by simp
next
  fix total_cost :: "generator \<Rightarrow> real \<Rightarrow> real" and rnd :: "nat \<Rightarrow> nat" and capacity :: real
    and i_stage :: nat and c :: network and avg :: "real list" and r :: "nat \<times> real"
    and g_idx :: nat and v :: real
  assume avg: "map_err (\<lambda>g. py_div (total_cost (generator_obj c g) (p_min (generator_obj c g)))
                 (p_min (generator_obj c g))) (online_units c) = Inr avg"
    and fm: "fair_max avg (rnd i_stage) = Inr r" and r: "(g_idx, v) = r"
  from fm r have "g_idx < length avg" by (auto dest: fair_max_index)
  with map_err_length [OF avg] have "online_units c ! g_idx \<in> set (online_units c)" by simp
  then have "length (online_units (set_online c (online_units c ! g_idx) False)) < length (online_units c)"
    by (simp add: online_units_set_offline length_filter_remove)
  then show "((total_cost, rnd, capacity, Suc i_stage, set_online c (online_units c ! g_idx) False),
       (total_cost, rnd, capacity, i_stage, c))
      \<in> measure (\<lambda>(total_cost, rnd, capacity, i_stage, c). length (online_units c))"
    by simp
qed


text \<open>\<^verbatim>\<open>[g.online for g in case.all_generators]\<close>\<close>

definition online_flags :: "network \<Rightarrow> bool list" where
  "online_flags c = map (\<lambda>g. online (generator_obj c g)) (all_generators c)"

text \<open>
  \<^verbatim>\<open>
  for i, generator in enumerate(case.all_generators):
      generator.online = stage_online[i]
  \<close>
\<close>

fun activate_from :: "bool list \<Rightarrow> nat \<Rightarrow> ref list \<Rightarrow> network \<Rightarrow> error + network" where
  "activate_from flags i [] c = Inr c"
| "activate_from flags i (g # gs) c =
     (if i < length flags then activate_from flags (Suc i) gs (set_online c g (flags ! i))
      else Inl IndexError)"

definition activate :: "bool list \<Rightarrow> network \<Rightarrow> error + network" where
  "activate flags c = activate_from flags 0 (all_generators c) c"

text \<open>
  \<^verbatim>\<open>
  candidates = [g for g in case.online_generators if \
                (round(g.mu_p_min, 4) > 0.0) and (g.p_min > 0.0)]
  \<close>
\<close>

definition shutdown_candidates :: "network \<Rightarrow> ref list" where
  "shutdown_candidates c =
     filter (\<lambda>g. 0 < py_round4 (mu_p_min (generator_obj c g)) \<and> 0 < p_min (generator_obj c g))
       (online_generators c)"

text \<open>
  The loop over the candidates of one stage. Its state: the case, the routine, and the
  locals \<^verbatim>\<open>overall_online\<close>, \<^verbatim>\<open>overall_cost\<close> and \<^verbatim>\<open>done\<close>.
  \<^verbatim>\<open>
  for candidate in candidates:
      for i, generator in enumerate(case.all_generators):
          generator.online = stage_online[i]
      candidate.online = False
      success = routine(case)
      if success and (routine.f < overall_cost):
          overall_online = [g.online for g in case.all_generators]
          overall_cost   = routine.f
          done = False
  \<close>
\<close>

fun trials ::
  "'r routine \<Rightarrow> ('r \<Rightarrow> real) \<Rightarrow> bool list \<Rightarrow> ref list \<Rightarrow>
   network \<times> 'r \<times> bool list \<times> real \<times> bool \<Rightarrow>
   error + (network \<times> 'r \<times> bool list \<times> real \<times> bool)" where
  "trials routine f stage_online [] st = Inr st"
| "trials routine f stage_online (candidate # rest) (c, rs, overall_online, overall_cost, done) =
     (case activate stage_online c of
        Inl e \<Rightarrow> Inl e
      | Inr c1 \<Rightarrow>
          (case routine rs (set_online c1 candidate False) of
             (success, rs', c2) \<Rightarrow>
               if success \<and> f rs' < overall_cost
               then trials routine f stage_online rest (c2, rs', online_flags c2, f rs', False)
               else trials routine f stage_online rest (c2, rs', overall_online, overall_cost, done)))"

text \<open>
  The main loop, \<^verbatim>\<open>while True\<close>. Nothing in the code bounds its iterations (the
  routine is arbitrary), so the model takes fuel, one unit per stage, and \<open>None\<close> is
  "not finished within the fuel". It returns the case, the routine and the locals
  \<^verbatim>\<open>overall_online\<close>, \<^verbatim>\<open>overall_cost\<close> and \<^verbatim>\<open>i_stage\<close> at the \<^verbatim>\<open>break\<close>.
  (\<^verbatim>\<open>stage_cost\<close> is assigned and never read.)
  \<^verbatim>\<open>
  while True:
      for i, generator in enumerate(case.all_generators):
          generator.online = stage_online[i]
      candidates = [...]
      if not candidates: break
      done = True
      i_stage += 1
      for candidate in candidates: ...
      if done:
          break
      else:
          stage_online = overall_online
          stage_cost   = overall_cost
  \<close>
\<close>

fun decommit ::
  "nat \<Rightarrow> 'r routine \<Rightarrow> ('r \<Rightarrow> real) \<Rightarrow> network \<Rightarrow> 'r \<Rightarrow> bool list \<Rightarrow> bool list \<Rightarrow> real \<Rightarrow> nat \<Rightarrow>
   (error + (network \<times> 'r \<times> bool list \<times> real \<times> nat)) option" where
  "decommit 0 routine f c rs stage_online overall_online overall_cost i_stage = None"
| "decommit (Suc fuel) routine f c rs stage_online overall_online overall_cost i_stage =
     (case activate stage_online c of
        Inl e \<Rightarrow> Some (Inl e)
      | Inr c1 \<Rightarrow>
          if shutdown_candidates c1 = []
          then Some (Inr (c1, rs, overall_online, overall_cost, i_stage))
          else
            (case trials routine f stage_online (shutdown_candidates c1)
                    (c1, rs, overall_online, overall_cost, True) of
               Inl e \<Rightarrow> Some (Inl e)
             | Inr (c2, rs2, overall_online2, overall_cost2, done) \<Rightarrow>
                 if done then Some (Inr (c2, rs2, overall_online2, overall_cost2, Suc i_stage))
                 else decommit fuel routine f c2 rs2 overall_online2 overall_online2
                        overall_cost2 (Suc i_stage)))"

text \<open>
  \<^verbatim>\<open>solve\<close>: the pre-pass, the baseline solve, the main loop, and the final solve
  of the best configuration. It returns the method's result with the routine and
  the case as they are left.
  \<^verbatim>\<open>
  success = routine(case)
  if not success:
      logger.error("Non-convergent OPF [%s]." % routine)
      return False
  overall_online = [g.online for g in case.all_generators]
  overall_cost   = routine.f
  stage_online = overall_online
  stage_cost   = overall_cost
  while True: ...
  for i, generator in enumerate(case.all_generators):
      generator.online = overall_online[i]
  success = routine(case)
  ...
  return True
  \<close>
\<close>

definition solve ::
  "nat \<Rightarrow> (generator \<Rightarrow> real \<Rightarrow> real) \<Rightarrow> (nat \<Rightarrow> nat) \<Rightarrow> 'r routine \<Rightarrow> ('r \<Rightarrow> real) \<Rightarrow> 'r \<Rightarrow> network \<Rightarrow>
   (error + (bool \<times> 'r \<times> network)) option" where
  "solve fuel total_cost rnd routine f rs c =
     (case decommit_pmin total_cost rnd (load_capacity c) 0 c of
        Inl e \<Rightarrow> Some (Inl e)
      | Inr (i_stage, c0) \<Rightarrow>
          (case routine rs c0 of
             (success, rs1, c1) \<Rightarrow>
               if \<not> success then Some (Inr (False, rs1, c1))
               else
                 (case decommit fuel routine f c1 rs1 (online_flags c1) (online_flags c1)
                         (f rs1) i_stage of
                    None \<Rightarrow> None
                  | Some (Inl e) \<Rightarrow> Some (Inl e)
                  | Some (Inr (c2, rs2, overall_online, overall_cost, i_stage2)) \<Rightarrow>
                      (case activate overall_online c2 of
                         Inl e \<Rightarrow> Some (Inl e)
                       | Inr c3 \<Rightarrow>
                           (case routine rs2 c3 of
                              (success3, rs3, c4) \<Rightarrow> Some (Inr (True, rs3, c4)))))))"

section \<open>\<^verbatim>\<open>dc_opf.py\<close>: the DC optimal power flow routine\<close>

text \<open>
  A dense vector (\<^verbatim>\<open>matrix\<close> of one column) is a list; a matrix, dense or sparse, is
  the list of its rows. \<^verbatim>\<open>sparse([M, N])\<close> stacks blocks vertically, which is \<open>@\<close> on
  lists of rows; \<^verbatim>\<open>sparse([M.T, N.T]).T\<close> puts them side by side, which is \<open>hcat\<close>.
  The type codes of cvxopt and its errors for blocks of unequal size are not modelled:
  the blocks the routine builds itself have matching sizes, and \<^verbatim>\<open>_B\<close> and
  \<^verbatim>\<open>_B_source\<close> come from \<^verbatim>\<open>make_susceptance_matrix\<close>.
\<close>

type_synonym matrix = "real list list"
type_synonym vector = "real list"

text \<open>
  Sequencing of statements that may raise: the first error ends the method.
\<close>

fun bind_err :: "error + 'a \<Rightarrow> ('a \<Rightarrow> error + 'b) \<Rightarrow> error + 'b" where
  "bind_err (Inl e) k = Inl e"
| "bind_err (Inr a) k = k a"

text \<open>
  \<^verbatim>\<open>spmatrix([], [], [], size=(r, c))\<close>: the zero matrix.
\<close>

definition spzeros :: "nat \<Rightarrow> nat \<Rightarrow> matrix" where
  "spzeros r c = replicate r (replicate c 0)"

definition hcat :: "matrix \<Rightarrow> matrix \<Rightarrow> matrix" where
  "hcat M N = map (\<lambda>(r, s). r @ s) (zip M N)"

definition mat_neg :: "matrix \<Rightarrow> matrix" where
  "mat_neg M = map (map uminus) M"

definition mat_vec :: "matrix \<Rightarrow> vector \<Rightarrow> vector" where
  "mat_vec M v = map (\<lambda>r. sum_list (map (\<lambda>(a, b). a * b) (zip r v))) M"

text \<open>
  \<^verbatim>\<open>M[i, j] = v\<close>, and \<^verbatim>\<open>xs[i]\<close>: an index outside the matrix or list raises \<^verbatim>\<open>IndexError\<close>.
\<close>

definition mat_set :: "matrix \<Rightarrow> nat \<Rightarrow> nat \<Rightarrow> real \<Rightarrow> error + matrix" where
  "mat_set M i j v =
     (if i < length M \<and> j < length (M ! i) then Inr (M[i := (M ! i)[j := v]])
      else Inl IndexError)"

definition py_nth :: "'a list \<Rightarrow> nat \<Rightarrow> error + 'a" where
  "py_nth xs i = (if i < length xs then Inr (xs ! i) else Inl IndexError)"

definition enumerate_py :: "'a list \<Rightarrow> (nat \<times> 'a) list" where
  "enumerate_py xs = zip [0..<length xs] xs"

text \<open>
  The private attributes of a \<^verbatim>\<open>DCOPFRoutine\<close>, \<^verbatim>\<open>self._B\<close> as \<open>self_B\<close> and so
  on; \<^verbatim>\<open>self._x\<close> (the initial point) is \<open>self_x0\<close> and \<^verbatim>\<open>self.x\<close> (the solution)
  is \<open>self_x\<close>. The class gives \<^verbatim>\<open>_solver_type\<close> the value \<^verbatim>\<open>"linear"\<close> and every
  other attribute \<^verbatim>\<open>None\<close>; \<^verbatim>\<open>__call__\<close> assigns each attribute before it reads it,
  so the empty matrix stands for \<^verbatim>\<open>None\<close>.
\<close>

record dcopf =
  self_B :: matrix
  self_B_source :: matrix
  self_theta_inj_source :: vector
  self_theta_inj_bus :: vector
  self_solver_type :: string
  self_x0 :: vector
  self_aa_cost :: matrix
  self_bb_cost :: vector
  self_aa_ref :: matrix
  self_bb_ref :: vector
  self_aa_mismatch :: matrix
  self_bb_mismatch :: vector
  self_aa_generation :: matrix
  self_bb_generation :: vector
  self_aa_flow :: matrix
  self_bb_flow :: vector
  self_AA_eq :: matrix
  self_AA_ieq :: matrix
  self_bb_eq :: vector
  self_bb_ieq :: vector
  self_hh :: matrix
  self_cc :: vector
  self_x :: "vector option"

definition new_routine :: dcopf where
  "new_routine = \<lparr> self_B = [], self_B_source = [], self_theta_inj_source = [],
     self_theta_inj_bus = [], self_solver_type = ''linear'', self_x0 = [],
     self_aa_cost = [], self_bb_cost = [], self_aa_ref = [], self_bb_ref = [],
     self_aa_mismatch = [], self_bb_mismatch = [], self_aa_generation = [],
     self_bb_generation = [], self_aa_flow = [], self_bb_flow = [],
     self_AA_eq = [], self_AA_ieq = [], self_bb_eq = [], self_bb_ieq = [],
     self_hh = [], self_cc = [], self_x = None \<rparr>"

text \<open>
  \<^verbatim>\<open>math.pi\<close>, a float: the double nearest to \<open>\<pi>\<close>.
\<close>

definition py_pi :: real where
  "py_pi = 884279719003555 / 281474976710656"

text \<open>
  \<^verbatim>\<open>
  branches = self.network.online_branches
  susc = []
  for branch in branches:
      if branch.x != 0.0:
          susc.append(branch.x)
      else:
          susc.append(1e12)
  b = matrix(susc)
  angle = matrix([-e.phase_shift*pi/180 for e in branches])
  source_inj = mul(b, angle)
  self._theta_inj_source = source_inj
  \<close>
\<close>

definition build_theta_inj_source :: "network \<Rightarrow> dcopf \<Rightarrow> dcopf" where
  "build_theta_inj_source n st =
     (let branches = online_branches n;
          susc = map (\<lambda>e. if x_react (branch_obj n e) \<noteq> 0 then x_react (branch_obj n e)
                           else 1000000000000) branches;
          angle = map (\<lambda>e. - phase_shift (branch_obj n e) * py_pi / 180) branches;
          source_inj = map (\<lambda>(b, a). b * a) (zip susc angle)
      in st\<lparr>self_theta_inj_source := source_inj\<rparr>)"

text \<open>
  \<^verbatim>\<open>
  source_incd = matrix(0, (n_buses, n_branches), tc="i")
  target_incd = matrix(0, (n_buses, n_branches), tc="i")
  for branch_idx, branch in enumerate(branches):
      source_idx = buses.index(branch.source_bus)
      target_idx = buses.index(branch.target_bus)
      source_incd[source_idx, branch_idx] = 1
      target_incd[target_idx, branch_idx] = 1
  source_inj = self._theta_inj_source
  bus_inj = source_incd * source_inj + target_incd * -source_inj
  self._theta_inj_bus = bus_inj
  \<close>
\<close>

fun incidence_loop ::
  "network \<Rightarrow> ref list \<Rightarrow> nat \<Rightarrow> ref list \<Rightarrow> matrix \<times> matrix \<Rightarrow> error + matrix \<times> matrix" where
  "incidence_loop n buses branch_idx [] (source_incd, target_incd) = Inr (source_incd, target_incd)"
| "incidence_loop n buses branch_idx (branch # rest) (source_incd, target_incd) =
     bind_err (py_index buses (source_bus (branch_obj n branch))) (\<lambda>source_idx.
     bind_err (py_index buses (target_bus (branch_obj n branch))) (\<lambda>target_idx.
     bind_err (mat_set source_incd source_idx branch_idx 1) (\<lambda>source_incd'.
     bind_err (mat_set target_incd target_idx branch_idx 1) (\<lambda>target_incd'.
     incidence_loop n buses (Suc branch_idx) rest (source_incd', target_incd')))))"

definition build_theta_inj_bus :: "network \<Rightarrow> dcopf \<Rightarrow> error + dcopf" where
  "build_theta_inj_bus n st =
     (let buses = connected_buses n;
          branches = online_branches n;
          n_buses = length buses;
          n_branches = length branches
      in bind_err (incidence_loop n buses 0 branches
                     (spzeros n_buses n_branches, spzeros n_buses n_branches))
           (\<lambda>(source_incd, target_incd).
              let source_inj = self_theta_inj_source st;
                  bus_inj = map (\<lambda>(a, b). a + b)
                              (zip (mat_vec source_incd source_inj)
                                   (mat_vec target_incd (map uminus source_inj)))
              in Inr (st\<lparr>self_theta_inj_bus := bus_inj\<rparr>)))"

text \<open>
  \<^verbatim>\<open>
  models = [g.cost_model for g in generators]
  if "Polynomial" in models and "Piecewise Linear" in models:
      raise NotImplementedError, "Yet to implement polynomial to " \
          "piecewise linear conversion"
  elif "Polynomial" not in models:
      self._solver_type = "linear"
  elif "Piecewise Linear" not in models:
      self._solver_type = "quadratic"
  else:
      logger.info("No valid cost models specified")
  \<close>
\<close>

definition cost_models :: "network \<Rightarrow> string list" where
  "cost_models n = map (\<lambda>g. cost_model (generator_obj n g)) (online_generators n)"

definition check_cost_model_consistency :: "network \<Rightarrow> dcopf \<Rightarrow> error + dcopf" where
  "check_cost_model_consistency n st =
     (let models = cost_models n
      in if ''Polynomial'' \<in> set models \<and> ''Piecewise Linear'' \<in> set models then
           Inl (NotImplementedError
                  ''Yet to implement polynomial to piecewise linear conversion'')
         else if ''Polynomial'' \<notin> set models then Inr (st\<lparr>self_solver_type := ''linear''\<rparr>)
         else if ''Piecewise Linear'' \<notin> set models then
           Inr (st\<lparr>self_solver_type := ''quadratic''\<rparr>)
         else Inr st)"

text \<open>
  \<^verbatim>\<open>
  v_phase = matrix([v.v_phase_guess*pi/180 for v in buses])
  _g_buses = [v for v in buses if len(v.generators) > 0]
  p_supply = matrix([v.p_supply for v in _g_buses])
  x = matrix([v_phase, p_supply])
  if self._solver_type == "linear":
      p_cost = []
      for v in _g_buses:
          for g in v.generators:
              p_cost.append(g.p_cost)
      pw_cost = matrix(p_cost)
      x = matrix([x, pw_cost])
  self._x = x
  \<close>
\<close>

definition build_x :: "network \<Rightarrow> dcopf \<Rightarrow> dcopf" where
  "build_x n st =
     (let buses = connected_buses n;
          v_phase = map (\<lambda>v. v_phase_guess (bus_obj n v) * py_pi / 180) buses;
          g_buses = filter (\<lambda>v. 0 < length (generators (bus_obj n v))) buses;
          p_supply' = map (\<lambda>v. p_supply (bus_obj n v)) g_buses;
          x = v_phase @ p_supply'
      in if self_solver_type st = ''linear'' then
           st\<lparr>self_x0 := x @ concat (map (\<lambda>v. map (\<lambda>g. p_cost (generator_obj n g))
                                               (generators (bus_obj n v))) g_buses)\<rparr>
         else st\<lparr>self_x0 := x\<rparr>)"


text \<open>
  The cost constraints. With piecewise linear costs:
  \<^verbatim>\<open>
  n_segments = [len(g.pwl_points)-1 for g in generators]
  n_cc = sum(n_segments)
  n_cost = len([g.p_cost for g in generators])
  a_cost = spmatrix([], [] ,[], size=(n_cc, n_buses+n_generators+n_cost))
  b_cost = matrix([0]*n_cost)
  i_segment = 0
  for g in generators:
      g_idx = generators.index(g)
      g_n_segments = len(g.pwl_points)-1
      for i in range(g_n_segments):
          x1, y1 = g.pwl_points[i]
          x2, y2 = g.pwl_points[i+1]
          m = (y2-y1)/(x2-x1)
          c = y1 - m*x1
          a_cost[i_segment+i, n_buses+g_idx] = m
          a_cost[i_segment+i, n_buses+n_generators+i]
          b_cost[i_segment+i] = -c
      i_segment += g_n_segments
  a_cost[:, n_buses+n_generators:] = -1
  \<close>
  and with polynomial costs an empty block:
  \<^verbatim>\<open>
  a_cost = spmatrix([], [], [], size=(0, n_buses+n_generators))
  b_cost = matrix([], size=(0,1))
  \<close>
  \<^verbatim>\<open>len(g.pwl_points)-1\<close> is \<open>-1\<close> for a generator without points, so the segment
  counter is an integer and an index may be negative, which counts from the end
  (\<open>py_wrap\<close>). A negative matrix size is refused (\<^verbatim>\<open>TypeError\<close>).
\<close>

definition py_wrap :: "int \<Rightarrow> nat \<Rightarrow> error + nat" where
  "py_wrap k len =
     (if 0 \<le> k \<and> k < int len then Inr (nat k)
      else if - int len \<le> k \<and> k < 0 then Inr (nat (k + int len))
      else Inl IndexError)"

fun segment_loop ::
  "nat \<Rightarrow> nat \<Rightarrow> nat \<Rightarrow> (real \<times> real) list \<Rightarrow> int \<Rightarrow> nat list \<Rightarrow> matrix \<times> vector \<Rightarrow>
   error + matrix \<times> vector" where
  "segment_loop n_buses n_generators g_idx pts i_segment [] (a_cost, b_cost) = Inr (a_cost, b_cost)"
| "segment_loop n_buses n_generators g_idx pts i_segment (i # rest) (a_cost, b_cost) =
     (case (pts ! i, pts ! Suc i) of
        ((x1, y1), (x2, y2)) \<Rightarrow>
          bind_err (py_div (y2 - y1) (x2 - x1)) (\<lambda>m.
          let c = y1 - m * x1 in
          bind_err (py_wrap (i_segment + int i) (length a_cost)) (\<lambda>row.
          bind_err (mat_set a_cost row (n_buses + g_idx) m) (\<lambda>a_cost'.
          bind_err (py_nth (a_cost' ! row) (n_buses + n_generators + i)) (\<lambda>_.
          bind_err (py_wrap (i_segment + int i) (length b_cost)) (\<lambda>k.
          segment_loop n_buses n_generators g_idx pts i_segment rest
            (a_cost', b_cost[k := - c])))))))"

fun cost_loop ::
  "network \<Rightarrow> nat \<Rightarrow> nat \<Rightarrow> ref list \<Rightarrow> ref list \<Rightarrow> int \<Rightarrow> matrix \<times> vector \<Rightarrow>
   error + matrix \<times> vector" where
  "cost_loop n n_buses n_generators gens [] i_segment ab = Inr ab"
| "cost_loop n n_buses n_generators gens (g # rest) i_segment ab =
     bind_err (py_index gens g) (\<lambda>g_idx.
     let pts = pwl_points (generator_obj n g);
         g_n_segments = int (length pts) - 1 in
     bind_err (segment_loop n_buses n_generators g_idx pts i_segment [0..<nat g_n_segments] ab)
       (\<lambda>ab'. cost_loop n n_buses n_generators gens rest (i_segment + g_n_segments) ab'))"

definition build_cost_constraint :: "network \<Rightarrow> dcopf \<Rightarrow> error + dcopf" where
  "build_cost_constraint n st =
     (let buses = connected_buses n;
          gens = online_generators n;
          n_buses = length buses;
          n_generators = length gens
      in if self_solver_type st = ''linear'' then
           (let n_segments = map (\<lambda>g. int (length (pwl_points (generator_obj n g))) - 1) gens;
                n_cc = sum_list n_segments;
                n_cost = length gens
            in if n_cc < 0 then Inl TypeError
               else
                 bind_err (cost_loop n n_buses n_generators gens gens 0
                             (spzeros (nat n_cc) (n_buses + n_generators + n_cost),
                              replicate n_cost 0))
                   (\<lambda>(a_cost, b_cost).
                      Inr (st\<lparr>self_aa_cost :=
                                 map (\<lambda>r. take (n_buses + n_generators) r
                                          @ replicate (length r - (n_buses + n_generators)) (- 1))
                                   a_cost,
                               self_bb_cost := b_cost\<rparr>)))
         else if self_solver_type st = ''quadratic'' then
           Inr (st\<lparr>self_aa_cost := spzeros 0 (n_buses + n_generators), self_bb_cost := []\<rparr>)
         else Inl (ValueError ''Invalid solver trait''))"

text \<open>
  \<^verbatim>\<open>
  ref_idxs = [buses.index(v) for v in buses if v.slack]
  if len(ref_idxs) == 0:
      ref_idx = 0 # Use the first bus
  elif len(ref_idxs) == 1:
      ref_idx = ref_idxs[0]
  else:
      raise ValueError, "More than one slack/reference bus"
  if self._solver_type == "linear":
      n_cost = len([g.p_cost for g in generators])
  else:
      n_cost = 0
  a_ref = spmatrix([], [], [], size=(1, n_buses+n_generators+n_cost))
  a_ref[0, ref_idx] = 1
  b_ref = matrix([buses[ref_idx].v_phase_guess])
  self._aa_ref = a_ref
  self._bb_ref = b_ref
  \<close>
\<close>

definition build_reference_angle_constraint :: "network \<Rightarrow> dcopf \<Rightarrow> error + dcopf" where
  "build_reference_angle_constraint n st =
     (let buses = connected_buses n;
          gens = online_generators n;
          n_buses = length buses;
          n_generators = length gens
      in bind_err (map_err (py_index buses) (filter (\<lambda>v. slack (bus_obj n v)) buses)) (\<lambda>ref_idxs.
         bind_err (if length ref_idxs = 0 then Inr 0
                   else if length ref_idxs = 1 then Inr (ref_idxs ! 0)
                   else Inl (ValueError ''More than one slack/reference bus'')) (\<lambda>ref_idx.
         let n_cost = (if self_solver_type st = ''linear'' then length gens else 0) in
         bind_err (mat_set (spzeros 1 (n_buses + n_generators + n_cost)) 0 ref_idx 1) (\<lambda>a_ref.
         bind_err (py_nth buses ref_idx) (\<lambda>v.
         Inr (st\<lparr>self_aa_ref := a_ref, self_bb_ref := [v_phase_guess (bus_obj n v)]\<rparr>))))))"

text \<open>
  \<^verbatim>\<open>
  i_bus_generator = spmatrix([], [], [], size=(n_buses, n_generators))
  j = 0
  for v in buses:
      i = buses.index(v)
      for g in v.generators:
          i_bus_generator[i,j] = 1
          j += 1
  if self._solver_type == "linear":
      n_cost = len([g.p_cost for g in generators])
      cost_mismatch = sparse([matrix(zeros((n_buses, n_cost)))])
  else:
      cost_mismatch = spmatrix([], [], [], size=(n_buses, 0))
  a_mismatch = sparse([self._B.T, -i_bus_generator.T, cost_mismatch.T]).T
  self._aa_mismatch = a_mismatch
  p_demand = matrix([v.p_demand for v in buses])
  g_shunt = matrix([v.g_shunt for v in buses])
  b_mismatch = -(p_demand+g_shunt)-self._theta_inj_bus
  self._bb_mismatch = b_mismatch
  \<close>
  The module does not import or define \<^verbatim>\<open>zeros\<close>: with the linear solver type the
  call \<^verbatim>\<open>zeros(...)\<close> raises \<^verbatim>\<open>NameError\<close>.
\<close>

fun generator_column_loop :: "nat \<Rightarrow> ref list \<Rightarrow> nat \<times> matrix \<Rightarrow> error + nat \<times> matrix" where
  "generator_column_loop i [] (j, inc) = Inr (j, inc)"
| "generator_column_loop i (g # rest) (j, inc) =
     bind_err (mat_set inc i j 1) (\<lambda>inc'. generator_column_loop i rest (Suc j, inc'))"

fun bus_generator_loop ::
  "network \<Rightarrow> ref list \<Rightarrow> ref list \<Rightarrow> nat \<times> matrix \<Rightarrow> error + nat \<times> matrix" where
  "bus_generator_loop n buses [] (j, inc) = Inr (j, inc)"
| "bus_generator_loop n buses (v # rest) (j, inc) =
     bind_err (py_index buses v) (\<lambda>i.
     bind_err (generator_column_loop i (generators (bus_obj n v)) (j, inc)) (\<lambda>(j', inc').
     bus_generator_loop n buses rest (j', inc')))"

definition build_active_power_flow_equations :: "network \<Rightarrow> dcopf \<Rightarrow> error + dcopf" where
  "build_active_power_flow_equations n st =
     (let buses = connected_buses n;
          gens = online_generators n;
          n_buses = length buses;
          n_generators = length gens
      in bind_err (bus_generator_loop n buses buses (0, spzeros n_buses n_generators))
           (\<lambda>(j, i_bus_generator).
              if self_solver_type st = ''linear'' then
                Inl (NameError ''zeros'')
              else
                (let cost_mismatch = spzeros n_buses 0;
                     a_mismatch = hcat (hcat (self_B st) (mat_neg i_bus_generator)) cost_mismatch;
                     p_demand' = map (\<lambda>v. p_demand (bus_obj n v)) buses;
                     g_shunt' = map (\<lambda>v. g_shunt (bus_obj n v)) buses;
                     b_mismatch = map (\<lambda>((d, g), inj). - (d + g) - inj)
                                    (zip (zip p_demand' g_shunt') (self_theta_inj_bus st))
                 in Inr (st\<lparr>self_aa_mismatch := a_mismatch, self_bb_mismatch := b_mismatch\<rparr>))))"

text \<open>
  \<^verbatim>\<open>
  limit_zeros = spmatrix([], [], [], size=(n_generators, n_buses))
  limit_eye = spdiag([1.0]*n_generators)
  if self._solver_type == "linear":
      n_cost = n_generators
      a_limit_cost = spmatrix([], [], [], (n_generators, n_cost))
  else:
      a_limit_cost = spmatrix([], [], [], (n_generators, 0))
  a_lower = sparse([limit_zeros.T, -limit_eye.T, a_limit_cost.T]).T
  a_upper = sparse([limit_zeros.T, limit_eye.T, a_limit_cost.T]).T
  a_limit = sparse([a_lower, a_upper])
  self._aa_generation = a_limit
  b_lower = matrix([-g.p_min_bid for g in generators])
  b_upper = matrix([g.p_max_bid for g in generators])
  b_limit = matrix([b_lower, b_upper])
  self._bb_generation = b_limit
  \<close>
\<close>

definition build_generation_limit_constraint :: "network \<Rightarrow> dcopf \<Rightarrow> dcopf" where
  "build_generation_limit_constraint n st =
     (let buses = connected_buses n;
          gens = online_generators n;
          n_buses = length buses;
          n_generators = length gens;
          limit_zeros = spzeros n_generators n_buses;
          limit_eye = eye n_generators;
          a_limit_cost = (if self_solver_type st = ''linear''
                          then spzeros n_generators n_generators
                          else spzeros n_generators 0);
          a_lower = hcat (hcat limit_zeros (mat_neg limit_eye)) a_limit_cost;
          a_upper = hcat (hcat limit_zeros limit_eye) a_limit_cost;
          a_limit = a_lower @ a_upper;
          b_lower = map (\<lambda>g. - p_min_bid (generator_obj n g)) gens;
          b_upper = map (\<lambda>g. p_max_bid (generator_obj n g)) gens;
          b_limit = b_lower @ b_upper
      in st\<lparr>self_aa_generation := a_limit, self_bb_generation := b_limit\<rparr>)"

text \<open>
  \<^verbatim>\<open>
  flow_zeros = spmatrix([], [], [], size=(n_branches, n_generators))
  if self._solver_type == "linear":
      n_cost = n_generators
      a_flow_cost = spmatrix([], [], [], (n_branches, n_cost))
  else:
      a_flow_cost = spmatrix([], [], [], (n_branches, 0))
  a_flow_source = sparse([self._B_source.T, flow_zeros.T, a_flow_cost.T]).T
  a_flow_target = sparse([-self._B_source.T, flow_zeros.T, a_flow_cost.T]).T
  a_flow = sparse([a_flow_source, a_flow_target])
  self._aa_flow = a_flow
  flow_s_max = matrix([e.s_max for e in branches])
  source_s_max = flow_s_max - self._theta_inj_source
  target_s_max = flow_s_max + self._theta_inj_source
  b_flow = matrix([source_s_max, target_s_max])
  self._bb_flow = b_flow
  \<close>
\<close>

definition build_branch_flow_limit_constraint :: "network \<Rightarrow> dcopf \<Rightarrow> dcopf" where
  "build_branch_flow_limit_constraint n st =
     (let branches = online_branches n;
          gens = online_generators n;
          n_branches = length branches;
          n_generators = length gens;
          flow_zeros = spzeros n_branches n_generators;
          a_flow_cost = (if self_solver_type st = ''linear''
                         then spzeros n_branches n_generators
                         else spzeros n_branches 0);
          a_flow_source = hcat (hcat (self_B_source st) flow_zeros) a_flow_cost;
          a_flow_target = hcat (hcat (mat_neg (self_B_source st)) flow_zeros) a_flow_cost;
          a_flow = a_flow_source @ a_flow_target;
          flow_s_max = map (\<lambda>e. s_max (branch_obj n e)) branches;
          source_s_max = map (\<lambda>(s, t). s - t) (zip flow_s_max (self_theta_inj_source st));
          target_s_max = map (\<lambda>(s, t). s + t) (zip flow_s_max (self_theta_inj_source st));
          b_flow = source_s_max @ target_s_max
      in st\<lparr>self_aa_flow := a_flow, self_bb_flow := b_flow\<rparr>)"

text \<open>
  \<^verbatim>\<open>
  AA_eq = sparse([self._aa_cost, self._aa_ref, self._aa_mismatch])
  bb_eq = matrix([self._bb_cost, self._bb_ref, self._bb_mismatch])
  AA_ieq = sparse([
      self._aa_generation,
      # FIXME: Branch flow limit constraint
  #    self._aa_flow,
  ])
  bb_ieq = matrix([
      self._bb_generation,
      # FIXME: Branch flow limit constraint
  #    self._bb_flow
  ])
  \<close>
\<close>

definition build_AA_equality :: "dcopf \<Rightarrow> dcopf" where
  "build_AA_equality st =
     st\<lparr>self_AA_eq := self_aa_cost st @ self_aa_ref st @ self_aa_mismatch st\<rparr>"

definition build_bb_equality :: "dcopf \<Rightarrow> dcopf" where
  "build_bb_equality st =
     st\<lparr>self_bb_eq := self_bb_cost st @ self_bb_ref st @ self_bb_mismatch st\<rparr>"

definition build_AA_inequality :: "dcopf \<Rightarrow> dcopf" where
  "build_AA_inequality st = st\<lparr>self_AA_ieq := self_aa_generation st\<rparr>"

definition build_bb_inequality :: "dcopf \<Rightarrow> dcopf" where
  "build_bb_inequality st = st\<lparr>self_bb_ieq := self_bb_generation st\<rparr>"

text \<open>
  \<^verbatim>\<open>
  if self._solver_type == "linear":
      raise NotImplementedError
  else:
      cost_coeffs = [g.cost_coeffs for g in generators]
      c0_coeffs = matrix([c0*base_mva**2 for c0, c1, c2 in cost_coeffs])
      h = spmatrix(2*c0_coeffs,
          matrix(range(n_generators))+n_buses,
          matrix(range(n_generators))+n_buses,
          size=(n_buses+n_generators, n_buses+n_generators))
  self._hh = h
  \<close>
  and, in \<^verbatim>\<open>_build_c\<close>,
  \<^verbatim>\<open>
  v_zeros = matrix([0]*n_buses)
  c1_coeffs = matrix([c1*base_mva for c0, c1, c2 in cost_coeffs])
  c = matrix([v_zeros, c1_coeffs])
  self._cc = c
  \<close>
\<close>

definition build_h :: "network \<Rightarrow> dcopf \<Rightarrow> error + dcopf" where
  "build_h n st =
     (let base_mva' = base_mva n;
          buses = connected_buses n;
          gens = online_generators n;
          n_buses = length buses;
          n_generators = length gens
      in if self_solver_type st = ''linear'' then Inl (NotImplementedError [])
         else
           (let c0_coeffs = map (\<lambda>g. case cost_coeffs (generator_obj n g) of
                                        (c0, c1, c2) \<Rightarrow> c0 * base_mva' ^ 2) gens;
                h = map (\<lambda>i. map (\<lambda>j. if i = j \<and> n_buses \<le> i
                                       then 2 * (c0_coeffs ! (i - n_buses)) else 0)
                               [0..<n_buses + n_generators])
                      [0..<n_buses + n_generators]
            in Inr (st\<lparr>self_hh := h\<rparr>)))"

definition build_c :: "network \<Rightarrow> dcopf \<Rightarrow> error + dcopf" where
  "build_c n st =
     (let base_mva' = base_mva n;
          buses = connected_buses n;
          gens = online_generators n;
          n_buses = length buses
      in if self_solver_type st = ''linear'' then Inl (NotImplementedError [])
         else
           (let v_zeros = replicate n_buses 0;
                c1_coeffs = map (\<lambda>g. case cost_coeffs (generator_obj n g) of
                                        (c0, c1, c2) \<Rightarrow> c1 * base_mva') gens
            in Inr (st\<lparr>self_cc := v_zeros @ c1_coeffs\<rparr>)))"


text \<open>
  The solver \<^verbatim>\<open>cvxopt.solvers.qp\<close> is a parameter. It gets the problem
  \<^verbatim>\<open>qp(P=self._hh, q=self._cc, G=self._AA_ieq, h=self._bb_ieq, A=self._AA_eq,
  b=self._bb_eq, solver=self.solver, initvals={"x": self._x})\<close> and returns a
  dictionary with the keys \<^verbatim>\<open>status, x, s, y, z\<close>, whose vectors are \<^verbatim>\<open>None\<close> when
  the status is \<^verbatim>\<open>"unknown"\<close>; or it raises.
\<close>

record qp_problem =
  qp_P :: matrix
  qp_q :: vector
  qp_G :: matrix
  qp_h :: vector
  qp_A :: matrix
  qp_b :: vector
  qp_initvals_x :: vector

record solution =
  status :: string
  sol_x :: "vector option"
  sol_s :: "vector option"
  sol_y :: "vector option"
  sol_z :: "vector option"

type_synonym qp_solver = "qp_problem \<Rightarrow> error + solution"

text \<open>
  \<^verbatim>\<open>
  solution = qp(...)
  self.x = solution["x"]
  return solution
  \<close>
\<close>

definition qp_problem_of :: "dcopf \<Rightarrow> qp_problem" where
  "qp_problem_of st =
     \<lparr> qp_P = self_hh st, qp_q = self_cc st,
       qp_G = self_AA_ieq st, qp_h = self_bb_ieq st,
       qp_A = self_AA_eq st, qp_b = self_bb_eq st,
       qp_initvals_x = self_x0 st \<rparr>"

definition solve_qp :: "qp_solver \<Rightarrow> dcopf \<Rightarrow> error + solution \<times> dcopf" where
  "solve_qp qp st =
     bind_err (qp (qp_problem_of st))
       (\<lambda>solution. Inr (solution, st\<lparr>self_x := sol_x solution\<rparr>))"

text \<open>
  Assignments to attributes of the bus, branch or generator behind a reference.
\<close>

definition upd_bus :: "network \<Rightarrow> ref \<Rightarrow> (bus \<Rightarrow> bus) \<Rightarrow> network" where
  "upd_bus n r f = n\<lparr>bus_obj := (bus_obj n)(r := f (bus_obj n r))\<rparr>"

definition upd_branch :: "network \<Rightarrow> ref \<Rightarrow> (branch \<Rightarrow> branch) \<Rightarrow> network" where
  "upd_branch n r f = n\<lparr>branch_obj := (branch_obj n)(r := f (branch_obj n r))\<rparr>"

definition upd_generator :: "network \<Rightarrow> ref \<Rightarrow> (generator \<Rightarrow> generator) \<Rightarrow> network" where
  "upd_generator n r f = n\<lparr>generator_obj := (generator_obj n)(r := f (generator_obj n r))\<rparr>"

text \<open>
  A \<^verbatim>\<open>for\<close> loop whose body changes the network and may raise: an exception ends
  the loop and leaves the assignments made so far.
\<close>

fun for_each :: "('a \<Rightarrow> 's \<Rightarrow> error option \<times> 's) \<Rightarrow> 'a list \<Rightarrow> 's \<Rightarrow> error option \<times> 's" where
  "for_each body [] s = (None, s)"
| "for_each body (a # rest) s =
     (case body a s of
        (Some e, s') \<Rightarrow> (Some e, s')
      | (None, s') \<Rightarrow> for_each body rest s')"

fun and_then :: "error option \<times> 's \<Rightarrow> ('s \<Rightarrow> error option \<times> 's) \<Rightarrow> error option \<times> 's" where
  "and_then (Some e, s) k = (Some e, s)"
| "and_then (None, s) k = k s"

text \<open>
  \<^verbatim>\<open>lin[k] / base_mva\<close>: subscripting \<^verbatim>\<open>None\<close> raises \<^verbatim>\<open>TypeError\<close>, an index
  out of range \<^verbatim>\<open>IndexError\<close>, a zero base \<^verbatim>\<open>ZeroDivisionError\<close>.
\<close>

definition multiplier :: "vector option \<Rightarrow> nat \<Rightarrow> real \<Rightarrow> error + real" where
  "multiplier lin k base =
     (case lin of
        None \<Rightarrow> Inl TypeError
      | Some v \<Rightarrow> bind_err (py_nth v k) (\<lambda>a. py_div a base))"

text \<open>
  \<^verbatim>\<open>
  offline_branches = [e for e in self.network.branches if e not in branches]
  offline_generators = [g for g in self.network.all_generators if g not in generators]
  v_phase = solution["x"][:n_buses]
  for i, bus in enumerate(buses):
      bus.v_amplitude = 1.0
      bus.v_phase = v_phase[i]
  p = solution["x"][n_buses:n_buses+n_generators]
  for i, generator in enumerate(generators):
      generator.p          = p[i]
      generator.p_despatch = p[i]
  p_source = self._B_source * v_phase * base_mva
  p_target = -p_source
  for j, branch in enumerate(branches):
      branch.p_source = p_source[j]
      branch.p_target = p_target[j]
      branch.q_source = 0.0
      branch.q_target = 0.0
  eqlin   = solution["y"]
  ineqlin = solution["z"]
  for i, bus in enumerate(buses):
      bus.p_lambda = eqlin[i + 1] / base_mva
      bus.q_lambda = 0.0
      bus.mu_v_min = 0.0
      bus.mu_v_max = 0.0
  for j, branch in enumerate(branches):
      branch.mu_s_source = 0.0
      branch.mu_s_target = 0.0
  for k, generator in enumerate(generators):
      generator.mu_p_min = ineqlin[k] / base_mva
      generator.mu_p_max = ineqlin[k + n_generators] / base_mva
      generator.mu_q_min = 0.0
      generator.mu_q_max = 0.0
  for branch in offline_branches:
      branch.mu_s_source = 0.0
      branch.mu_s_target = 0.0
  for generator in offline_generators:
      generator.mu_p_min = 0.0
      generator.mu_p_max = 0.0
      generator.mu_q_min = 0.0
      generator.mu_q_max = 0.0
  \<close>
  The result is the network as the method leaves it, with the exception if one ended
  it.
\<close>

definition update_solution_data :: "network \<Rightarrow> dcopf \<Rightarrow> solution \<Rightarrow> error option \<times> network" where
  "update_solution_data n st solution =
     (let base_mva' = base_mva n;
          buses = connected_buses n;
          branches' = online_branches n;
          gens = online_generators n;
          n_buses = length buses;
          n_generators = length gens;
          offline_branches = filter (\<lambda>e. e \<notin> set branches') (branches n);
          offline_generators = filter (\<lambda>g. g \<notin> set gens) (all_generators n)
      in case sol_x solution of
           None \<Rightarrow> (Some TypeError, n)
         | Some x \<Rightarrow>
             (let v_phase' = take n_buses x;
                  p = take n_generators (drop n_buses x);
                  p_source' = map (\<lambda>v. v * base_mva') (mat_vec (self_B_source st) v_phase');
                  p_target' = map uminus p_source';
                  eqlin = sol_y solution;
                  ineqlin = sol_z solution
              in
              and_then (for_each (\<lambda>(i, bus) m.
                  let m1 = upd_bus m bus (\<lambda>b. b\<lparr>v_amplitude := 1\<rparr>) in
                  case py_nth v_phase' i of
                    Inl e \<Rightarrow> (Some e, m1)
                  | Inr a \<Rightarrow> (None, upd_bus m1 bus (\<lambda>b. b\<lparr>v_phase := a\<rparr>)))
                (enumerate_py buses) n) (\<lambda>n1.
              and_then (for_each (\<lambda>(i, generator) m.
                  case py_nth p i of
                    Inl e \<Rightarrow> (Some e, m)
                  | Inr a \<Rightarrow> (None, upd_generator m generator (\<lambda>g. g\<lparr>p_out := a, p_despatch := a\<rparr>)))
                (enumerate_py gens) n1) (\<lambda>n2.
              and_then (for_each (\<lambda>(j, branch) m.
                  case py_nth p_source' j of
                    Inl e \<Rightarrow> (Some e, m)
                  | Inr a \<Rightarrow>
                      (case py_nth p_target' j of
                         Inl e \<Rightarrow> (Some e, upd_branch m branch (\<lambda>b. b\<lparr>p_source := a\<rparr>))
                       | Inr a' \<Rightarrow>
                           (None, upd_branch m branch
                              (\<lambda>b. b\<lparr>p_source := a, p_target := a', q_source := 0, q_target := 0\<rparr>))))
                (enumerate_py branches') n2) (\<lambda>n3.
              and_then (for_each (\<lambda>(i, bus) m.
                  case multiplier eqlin (i + 1) base_mva' of
                    Inl e \<Rightarrow> (Some e, m)
                  | Inr a \<Rightarrow>
                      (None, upd_bus m bus
                         (\<lambda>b. b\<lparr>p_lambda := a, q_lambda := 0, mu_v_min := 0, mu_v_max := 0\<rparr>)))
                (enumerate_py buses) n3) (\<lambda>n4.
              and_then (for_each (\<lambda>(j, branch) m.
                  (None, upd_branch m branch (\<lambda>b. b\<lparr>mu_s_source := 0, mu_s_target := 0\<rparr>)))
                (enumerate_py branches') n4) (\<lambda>n5.
              and_then (for_each (\<lambda>(k, generator) m.
                  case multiplier ineqlin k base_mva' of
                    Inl e \<Rightarrow> (Some e, m)
                  | Inr a \<Rightarrow>
                      (let m1 = upd_generator m generator (\<lambda>g. g\<lparr>mu_p_min := a\<rparr>) in
                       case multiplier ineqlin (k + n_generators) base_mva' of
                         Inl e \<Rightarrow> (Some e, m1)
                       | Inr a' \<Rightarrow>
                           (None, upd_generator m1 generator
                              (\<lambda>g. g\<lparr>mu_p_max := a', mu_q_min := 0, mu_q_max := 0\<rparr>))))
                (enumerate_py gens) n5) (\<lambda>n6.
              and_then (for_each (\<lambda>branch m.
                  (None, upd_branch m branch (\<lambda>b. b\<lparr>mu_s_source := 0, mu_s_target := 0\<rparr>)))
                offline_branches n6) (\<lambda>n7.
              for_each (\<lambda>generator m.
                  (None, upd_generator m generator
                     (\<lambda>g. g\<lparr>mu_p_min := 0, mu_p_max := 0, mu_q_min := 0, mu_q_max := 0\<rparr>)))
                offline_generators n7)))))))))"

text \<open>
  \<^verbatim>\<open>make_susceptance_matrix\<close> of \<^verbatim>\<open>pylon.y\<close> is not among the sources: it is a
  parameter that returns \<^verbatim>\<open>_B\<close> and \<^verbatim>\<open>_B_source\<close> or raises. \<open>formulate\<close> is
  \<^verbatim>\<open>__call__\<close> up to the solve: the builders in the order of the source.
  \<^verbatim>\<open>
  self._B, self._B_source = make_susceptance_matrix( network )
  self._build_theta_inj_source()
  self._build_theta_inj_bus()
  self._check_cost_model_consistency()
  self._build_x()
  self._build_cost_constraint()
  self._build_reference_angle_constraint()
  self._build_active_power_flow_equations()
  self._build_generation_limit_constraint()
  self._build_branch_flow_limit_constraint()
  self._build_AA_equality()
  self._build_AA_inequality()
  self._build_bb_equality()
  self._build_bb_inequality()
  self._build_h()
  self._build_c()
  \<close>
\<close>

type_synonym susceptance_builder = "network \<Rightarrow> error + matrix \<times> matrix"

definition formulate :: "susceptance_builder \<Rightarrow> network \<Rightarrow> dcopf \<Rightarrow> error + dcopf" where
  "formulate make_susceptance_matrix n st =
     bind_err (make_susceptance_matrix n) (\<lambda>(B, B_source).
     bind_err (Inr (build_theta_inj_source n (st\<lparr>self_B := B, self_B_source := B_source\<rparr>))) (\<lambda>st1.
     bind_err (build_theta_inj_bus n st1) (\<lambda>st2.
     bind_err (check_cost_model_consistency n st2) (\<lambda>st3.
     bind_err (Inr (build_x n st3)) (\<lambda>st4.
     bind_err (build_cost_constraint n st4) (\<lambda>st5.
     bind_err (build_reference_angle_constraint n st5) (\<lambda>st6.
     bind_err (build_active_power_flow_equations n st6) (\<lambda>st7.
     bind_err (Inr (build_generation_limit_constraint n st7)) (\<lambda>st8.
     bind_err (Inr (build_branch_flow_limit_constraint n st8)) (\<lambda>st9.
     bind_err (Inr (build_bb_inequality (build_bb_equality
                 (build_AA_inequality (build_AA_equality st9))))) (\<lambda>st10.
     bind_err (build_h n st10) (\<lambda>st11.
     build_c n st11))))))))))))"

text \<open>
  \<^verbatim>\<open>__call__\<close>: the result is what the method returns or raises, and the network
  as it leaves it.
  \<^verbatim>\<open>
  solution = self._solve_qp()
  if solution["status"] == "optimal":
      self._update_solution_data(solution)
  return solution
  \<close>
\<close>

definition call ::
  "qp_solver \<Rightarrow> susceptance_builder \<Rightarrow> dcopf \<Rightarrow> network \<Rightarrow> (error + solution) \<times> network" where
  "call qp make_susceptance_matrix st n =
     (case formulate make_susceptance_matrix n st of
        Inl e \<Rightarrow> (Inl e, n)
      | Inr st1 \<Rightarrow>
          (case solve_qp qp st1 of
             Inl e \<Rightarrow> (Inl e, n)
           | Inr (solution, st2) \<Rightarrow>
               if status solution = ''optimal'' then
                 (case update_solution_data n st2 solution of
                    (Some e, n') \<Rightarrow> (Inl e, n')
                  | (None, n') \<Rightarrow> (Inr solution, n'))
               else (Inr solution, n)))"


text \<open>
  Three notions of the source, named for the statements below: the test of
  \<^verbatim>\<open>_check_cost_model_consistency\<close> for a mix of cost models, the buses flagged as
  slack in the order of \<^verbatim>\<open>connected_buses\<close> (the list \<^verbatim>\<open>ref_idxs\<close> holds their
  positions), and the position \<^verbatim>\<open>ref_idx\<close> that \<^verbatim>\<open>_build_reference_angle_constraint\<close>
  selects when it does not raise.
\<close>

definition mixed_cost_models :: "network \<Rightarrow> bool" where
  "mixed_cost_models n \<longleftrightarrow>
     ''Polynomial'' \<in> set (cost_models n) \<and> ''Piecewise Linear'' \<in> set (cost_models n)"

definition slack_buses :: "network \<Rightarrow> ref list" where
  "slack_buses n = filter (\<lambda>v. slack (bus_obj n v)) (connected_buses n)"

definition reference_index :: "network \<Rightarrow> nat" where
  "reference_index n =
     (case slack_buses n of
        [] \<Rightarrow> 0
      | v # _ \<Rightarrow> length (takeWhile (\<lambda>y. y \<noteq> v) (connected_buses n)))"

section \<open>Example data\<close>

text \<open>
  A case with two buses, A (reference 0, the slack bus) and B (reference 1, with a
  demand of 50), one branch from A to B with reactance 2 and a phase shift of 180
  degrees, two generators at A (references 0 and 1, both online, polynomial costs,
  each with \<open>p_min = 10\<close> and a binding lower limit, \<open>mu_p_min = 1\<close>) and one load
  of 50.
\<close>

definition example_generator :: generator where
  "example_generator = \<lparr> online = True, is_load = False, p_min = 10,
     cost_model = ''Polynomial'', p_cost = 0, pwl_points = [], cost_coeffs = (0, 10, 0),
     p_min_bid = 10, p_max_bid = 100, p_out = 0, p_despatch = 0,
     mu_p_min = 1, mu_p_max = 0, mu_q_min = 0, mu_q_max = 0 \<rparr>"

definition example_bus_a :: bus where
  "example_bus_a = \<lparr> v_phase_guess = 0, slack = True, generators = [0, 1], p_supply = 0,
     p_demand = 0, g_shunt = 0, v_amplitude = 0, v_phase = 0, p_lambda = 0, q_lambda = 0,
     mu_v_min = 0, mu_v_max = 0 \<rparr>"

definition example_bus_b :: bus where
  "example_bus_b = \<lparr> v_phase_guess = 0, slack = False, generators = [], p_supply = 0,
     p_demand = 50, g_shunt = 0, v_amplitude = 0, v_phase = 0, p_lambda = 0, q_lambda = 0,
     mu_v_min = 0, mu_v_max = 0 \<rparr>"

definition example_branch :: branch where
  "example_branch = \<lparr> source_bus = 0, target_bus = 1, x_react = 2, phase_shift = 180,
     s_max = 100, p_source = 0, p_target = 0, q_source = 0, q_target = 0,
     mu_s_source = 0, mu_s_target = 0 \<rparr>"

definition example_case :: network where
  "example_case = \<lparr> base_mva = 100, bus_obj = (\<lambda>_. example_bus_b)(0 := example_bus_a),
     branch_obj = (\<lambda>_. example_branch), generator_obj = (\<lambda>_. example_generator),
     connected_buses = [0, 1], online_branches = [0], branches = [0],
     all_generators = [0, 1], online_loads = [\<lparr> p_load = 50 \<rparr>] \<rparr>"

text \<open>The susceptance matrices of the example: the branch has susceptance 1/2.\<close>

definition example_susceptance :: susceptance_builder where
  "example_susceptance n = Inr ([[1 / 2, - (1 / 2)], [- (1 / 2), 1 / 2]], [[1 / 2, - (1 / 2)]])"

text \<open>A solver that gives up, and one that reports an optimum.\<close>

definition unknown_qp :: qp_solver where
  "unknown_qp pr =
     Inr \<lparr> status = ''unknown'', sol_x = None, sol_s = None, sol_y = None, sol_z = None \<rparr>"

definition optimal_qp :: qp_solver where
  "optimal_qp pr =
     Inr \<lparr> status = ''optimal'', sol_x = Some [0, 1, 20, 30], sol_s = Some [1, 1, 1, 1],
           sol_y = Some [5, 6, 7], sol_z = Some [1, 2, 3, 4] \<rparr>"

text \<open>The example case with a piecewise linear cost model for generator 1.\<close>

definition example_mixed_case :: network where
  "example_mixed_case =
     example_case\<lparr>generator_obj :=
       (\<lambda>_. example_generator)(1 := example_generator\<lparr>cost_model := ''Piecewise Linear''\<rparr>)\<rparr>"

text \<open>
  A stand-in for the OPF routine: it converges iff generator 0 is online, and its
  objective is 100 for each online generator. Its state is the objective.
\<close>

definition example_routine :: "real routine" where
  "example_routine rs c =
     (online (generator_obj c 0), real (length (online_generators c)) * 100, c)"

text \<open>A routine that never converges.\<close>

definition failing_routine :: "real routine" where
  "failing_routine rs c = (False, rs, c)"

section \<open>Properties of \<^verbatim>\<open>fair_max\<close>\<close>

text \<open>
  C3. The claim: for a non-empty list with \<open>k\<close> positions attaining the maximum,
  \<^verbatim>\<open>fair_max\<close> never returns a non-maximal position, and each of the \<open>k\<close> maximal
  positions is returned under some draw. The code at \<^verbatim>\<open>x = [1.0, 1.0]\<close>: both
  positions hold the maximum, the list of candidate indices is \<^verbatim>\<open>[0, 0]\<close>, and every
  draw returns position 0; position 1 is never returned.
\<close>

theorem fair_max_tied_returns_first_only:
  "fair_max [1, 1] r = Inr (0, 1) \<and> [1, 1 :: real] ! 1 = 1"
  using fair_max_first [of "[1, 1]" r] by (simp add: py_max_def)

section \<open>Properties of the \<^verbatim>\<open>pdipm\<close> preprocessing\<close>

lemma EPS_bounds: "0 < EPS" "EPS < 1"
  by (simp_all add: EPS_def)

lemma mem_filter_upt: "j \<in> set (filter P [0..<n]) \<longleftrightarrow> j < n \<and> P j"
  by auto

lemma split_rows_fields:
  assumes "split_rows AA ll uu = Inr s"
  shows "length uu = length ll"
    and "ieq s = filter (\<lambda>j. flt (fabs (fsub (uu ! j) (ll ! j))) (Fin EPS)) [0..<length ll]"
    and "igt s = filter (\<lambda>j. fle (Fin 10000000000) (uu ! j) \<and> flt (Fin (- 10000000000)) (ll ! j)) [0..<length ll]"
    and "ilt s = filter (\<lambda>j. fle (ll ! j) (Fin (- 10000000000)) \<and> flt (uu ! j) (Fin 10000000000)) [0..<length ll]"
    and "ibx s = filter (\<lambda>j. flt (Fin EPS) (fabs (fsub (uu ! j) (ll ! j)))
                     \<and> flt (uu ! j) (Fin 10000000000) \<and> flt (Fin (- 10000000000)) (ll ! j)) [0..<length ll]"
    and "Ae s = map (\<lambda>j. AA ! j) (ieq s)"
    and "be s = map (\<lambda>j. uu ! j) (ieq s)"
    and "Ai s = map (\<lambda>j. AA ! j) (ilt s) @ map (\<lambda>j. map uminus (AA ! j)) (igt s)
                @ map (\<lambda>j. AA ! j) (ibx s) @ map (\<lambda>j. map uminus (AA ! j)) (ibx s)"
    and "bi s = map (\<lambda>j. uu ! j) (ilt s) @ map (\<lambda>j. fneg (ll ! j)) (igt s)
                @ map (\<lambda>j. uu ! j) (ibx s) @ map (\<lambda>j. fneg (ll ! j)) (ibx s)"
  using assms by (auto simp: split_rows_def Let_def split: if_splits)

lemma class_gap_large:
  assumes "flt (Fin EPS) (fabs (fsub hi lo))"
    and "flt (Fin (- 10000000000)) lo \<or> flt hi (Fin 10000000000)"
  shows "\<not> flt (fabs (fsub hi lo)) (Fin EPS)"
    and "(if fle lo (Fin (- 10000000000)) \<and> flt hi (Fin 10000000000) then 1 else 0)
       + (if fle (Fin 10000000000) hi \<and> flt (Fin (- 10000000000)) lo then 1 else 0)
       + (if flt hi (Fin 10000000000) \<and> flt (Fin (- 10000000000)) lo then 1 else 0) = (1::nat)"
  using assms by (cases lo; cases hi; auto)+

lemma class_unbounded:
  assumes "fle lo (Fin (- 10000000000))" and "fle (Fin 10000000000) hi"
  shows "\<not> flt (fabs (fsub hi lo)) (Fin EPS)"
    and "\<not> flt hi (Fin 10000000000)" and "\<not> flt (Fin (- 10000000000)) lo"
  using assms EPS_bounds by (cases lo; cases hi; auto)+

lemma class_gap_small:
  assumes "flt (fabs (fsub hi lo)) (Fin EPS)"
    and "flt (Fin (- 10000000000)) lo" and "flt hi (Fin 10000000000)"
  shows "\<not> flt (Fin EPS) (fabs (fsub hi lo))"
    and "\<not> fle lo (Fin (- 10000000000))" and "\<not> fle (Fin 10000000000) hi"
  using assms by (cases lo; cases hi; auto)+

text \<open>
  C5 (as amended). Every merged row \<open>j\<close> with lower bound \<open>ll ! j\<close> and upper bound
  \<open>uu ! j\<close> is classified by the four tests of the code: it is an equality row
  (\<^verbatim>\<open>ieq\<close>) iff its gap is below \<^verbatim>\<open>EPS\<close>; a one-sided upper row (\<^verbatim>\<open>ilt\<close>) iff its lower
  bound is at most \<^verbatim>\<open>-1e10\<close> and its upper bound below \<^verbatim>\<open>1e10\<close>; a one-sided lower
  row (\<^verbatim>\<open>igt\<close>) iff its upper bound is at least \<^verbatim>\<open>1e10\<close> and its lower bound above
  \<^verbatim>\<open>-1e10\<close>; a two-sided row (\<^verbatim>\<open>ibx\<close>) iff its gap exceeds \<^verbatim>\<open>EPS\<close> and both bounds
  are inside. The equality block takes the \<^verbatim>\<open>ieq\<close> rows with their upper bounds; the
  inequality block stacks the \<^verbatim>\<open>ilt\<close> rows, the negated \<^verbatim>\<open>igt\<close> rows, the \<^verbatim>\<open>ibx\<close>
  rows and the negated \<^verbatim>\<open>ibx\<close> rows. A row whose gap exceeds \<^verbatim>\<open>EPS\<close> and that has a
  bound inside falls in exactly one class, an inequality class; a row whose gap is below
  \<^verbatim>\<open>EPS\<close> with both bounds inside falls in exactly one class, the equalities; a row
  with neither bound inside (the default for a variable without box bounds) falls in no
  class at all.
\<close>

theorem pdipm_row_classes:
  assumes lo: "merged_lower nx xmin A l = Inr ll"
    and hi: "merged_upper nx xmax A u = Inr uu"
    and pre: "pdipm_preprocess nx xmin xmax A l u = Inr s"
    and j: "j < length ll"
  shows "(j \<in> set (ieq s) \<longleftrightarrow> flt (fabs (fsub (uu ! j) (ll ! j))) (Fin EPS))
       \<and> (j \<in> set (ilt s) \<longleftrightarrow> fle (ll ! j) (Fin (- 10000000000)) \<and> flt (uu ! j) (Fin 10000000000))
       \<and> (j \<in> set (igt s) \<longleftrightarrow> fle (Fin 10000000000) (uu ! j) \<and> flt (Fin (- 10000000000)) (ll ! j))
       \<and> (j \<in> set (ibx s) \<longleftrightarrow> flt (Fin EPS) (fabs (fsub (uu ! j) (ll ! j)))
             \<and> flt (uu ! j) (Fin 10000000000) \<and> flt (Fin (- 10000000000)) (ll ! j))
       \<and> Ae s = map (\<lambda>j. merged_rows nx A ! j) (ieq s)
       \<and> be s = map (\<lambda>j. uu ! j) (ieq s)
       \<and> Ai s = map (\<lambda>j. merged_rows nx A ! j) (ilt s)
                @ map (\<lambda>j. map uminus (merged_rows nx A ! j)) (igt s)
                @ map (\<lambda>j. merged_rows nx A ! j) (ibx s)
                @ map (\<lambda>j. map uminus (merged_rows nx A ! j)) (ibx s)
       \<and> bi s = map (\<lambda>j. uu ! j) (ilt s) @ map (\<lambda>j. fneg (ll ! j)) (igt s)
                @ map (\<lambda>j. uu ! j) (ibx s) @ map (\<lambda>j. fneg (ll ! j)) (ibx s)
       \<and> (flt (Fin EPS) (fabs (fsub (uu ! j) (ll ! j)))
            \<and> (flt (Fin (- 10000000000)) (ll ! j) \<or> flt (uu ! j) (Fin 10000000000))
          \<longrightarrow> row_classes s j = 1 \<and> j \<notin> set (ieq s))
       \<and> (flt (fabs (fsub (uu ! j) (ll ! j))) (Fin EPS)
            \<and> flt (Fin (- 10000000000)) (ll ! j) \<and> flt (uu ! j) (Fin 10000000000)
          \<longrightarrow> row_classes s j = 1 \<and> j \<in> set (ieq s))
       \<and> (fle (ll ! j) (Fin (- 10000000000)) \<and> fle (Fin 10000000000) (uu ! j)
          \<longrightarrow> row_classes s j = 0)"
proof -
  from pre lo hi have sp: "split_rows (merged_rows nx A) ll uu = Inr s"
    by (simp add: pdipm_preprocess_def)
  note f = split_rows_fields [OF sp]
  have m1: "j \<in> set (ieq s) \<longleftrightarrow> flt (fabs (fsub (uu ! j) (ll ! j))) (Fin EPS)"
    using j by (simp add: f(2) mem_filter_upt)
  have m2: "j \<in> set (ilt s) \<longleftrightarrow> fle (ll ! j) (Fin (- 10000000000)) \<and> flt (uu ! j) (Fin 10000000000)"
    using j by (simp add: f(4) mem_filter_upt)
  have m3: "j \<in> set (igt s) \<longleftrightarrow> fle (Fin 10000000000) (uu ! j) \<and> flt (Fin (- 10000000000)) (ll ! j)"
    using j by (simp add: f(3) mem_filter_upt)
  have m4: "j \<in> set (ibx s) \<longleftrightarrow> flt (Fin EPS) (fabs (fsub (uu ! j) (ll ! j)))
             \<and> flt (uu ! j) (Fin 10000000000) \<and> flt (Fin (- 10000000000)) (ll ! j)"
    using j by (simp add: f(5) mem_filter_upt)
  have rc: "row_classes s j = (if j \<in> set (ieq s) then 1 else 0) + (if j \<in> set (ilt s) then 1 else 0)
       + (if j \<in> set (igt s) then 1 else 0) + (if j \<in> set (ibx s) then 1 else 0)"
    by (simp add: row_classes_def)
  have c1: "row_classes s j = 1 \<and> j \<notin> set (ieq s)"
    if "flt (Fin EPS) (fabs (fsub (uu ! j) (ll ! j)))"
      and "flt (Fin (- 10000000000)) (ll ! j) \<or> flt (uu ! j) (Fin 10000000000)"
    using class_gap_large [OF that] that(1) by (simp add: rc m1 m2 m3 m4)
  have c2: "row_classes s j = 1 \<and> j \<in> set (ieq s)"
    if "flt (fabs (fsub (uu ! j) (ll ! j))) (Fin EPS)"
      and "flt (Fin (- 10000000000)) (ll ! j)" and "flt (uu ! j) (Fin 10000000000)"
    using class_gap_small [OF that] that by (simp add: rc m1 m2 m3 m4)
  have c3: "row_classes s j = 0"
    if "fle (ll ! j) (Fin (- 10000000000))" and "fle (Fin 10000000000) (uu ! j)"
    using class_unbounded [OF that] by (simp add: rc m1 m2 m3 m4)
  from m1 m2 m3 m4 f(6) f(7) f(8) f(9) c1 c2 c3 show ?thesis by blast
qed

text \<open>
  The theorem at a concrete input: three variables, the first boxed in \<open>[0, 5]\<close>, the
  second fixed at 1, the third free, and three rows: one bounded above, one bounded
  below, one boxed in \<open>[-1, 1]\<close>.
\<close>

theorem pdipm_row_classes_witness:
  "pdipm_preprocess 3 (Some [Fin 0, Fin 1, NInf]) (Some [Fin 5, Fin 1, PInf])
       (Some [[1, 1, 0], [2, 0, 0], [0, 1, 1]])
       (Some [NInf, Fin 2, Fin (- 1)]) (Some [Fin 3, PInf, Fin 1])
     = Inr \<lparr> ieq = [1], igt = [4], ilt = [3], ibx = [0, 5],
             Ae = [[0, 1, 0]], be = [Fin 1],
             Ai = [[1, 1, 0], [- 2, 0, 0], [1, 0, 0], [0, 1, 1], [- 1, 0, 0], [0, - 1, - 1]],
             bi = [Fin 3, Fin (- 2), Fin 5, Fin 1, Fin 0, Fin 1] \<rparr>
   \<and> row_classes \<lparr> ieq = [1], igt = [4], ilt = [3], ibx = [0, 5],
             Ae = [[0, 1, 0]], be = [Fin 1],
             Ai = [[1, 1, 0], [- 2, 0, 0], [1, 0, 0], [0, 1, 1], [- 1, 0, 0], [0, - 1, - 1]],
             bi = [Fin 3, Fin (- 2), Fin 5, Fin 1, Fin 0, Fin 1] \<rparr> 0 = 1
   \<and> row_classes \<lparr> ieq = [1], igt = [4], ilt = [3], ibx = [0, 5],
             Ae = [[0, 1, 0]], be = [Fin 1],
             Ai = [[1, 1, 0], [- 2, 0, 0], [1, 0, 0], [0, 1, 1], [- 1, 0, 0], [0, - 1, - 1]],
             bi = [Fin 3, Fin (- 2), Fin 5, Fin 1, Fin 0, Fin 1] \<rparr> 1 = 1
   \<and> row_classes \<lparr> ieq = [1], igt = [4], ilt = [3], ibx = [0, 5],
             Ae = [[0, 1, 0]], be = [Fin 1],
             Ai = [[1, 1, 0], [- 2, 0, 0], [1, 0, 0], [0, 1, 1], [- 1, 0, 0], [0, - 1, - 1]],
             bi = [Fin 3, Fin (- 2), Fin 5, Fin 1, Fin 0, Fin 1] \<rparr> 2 = 0"
proof -
  let ?xmin = "Some [Fin 0, Fin 1, NInf]" and ?xmax = "Some [Fin 5, Fin 1, PInf]"
  let ?A = "Some [[1, 1, 0], [2, 0, 0], [0, 1, 1 :: real]]"
  let ?l = "Some [NInf, Fin 2, Fin (- 1)]" and ?u = "Some [Fin 3, PInf, Fin 1]"
  let ?ll = "[Fin 0, Fin 1, NInf, NInf, Fin 2, Fin (- 1)]"
  let ?uu = "[Fin 5, Fin 1, PInf, Fin 3, PInf, Fin 1]"
  let ?s = "\<lparr> ieq = [1], igt = [4], ilt = [3], ibx = [0, 5],
             Ae = [[0, 1, 0]], be = [Fin 1],
             Ai = [[1, 1, 0], [- 2, 0, 0], [1, 0, 0], [0, 1, 1], [- 1, 0, 0], [0, - 1, - 1]],
             bi = [Fin 3, Fin (- 2), Fin 5, Fin 1, Fin 0, Fin 1] \<rparr>"
  have lo: "merged_lower 3 ?xmin ?A ?l = Inr ?ll" by (simp add: merged_lower_def)
  have hi: "merged_upper 3 ?xmax ?A ?u = Inr ?uu" by (simp add: merged_upper_def)
  have upt: "[0..<6] = [0, 1, 2, 3, 4, 5]" "[0..<3] = [0, 1, 2]" by (simp_all add: upt_rec)
  have pre: "pdipm_preprocess 3 ?xmin ?xmax ?A ?l ?u = Inr ?s"
    by (simp add: pdipm_preprocess_def lo hi split_rows_def merged_rows_def eye_def upt EPS_def)
  have e: "flt (Fin EPS) (Fin 5)" "flt (Fin 0) (Fin EPS)" by (simp_all add: EPS_def)
  note t0 = pdipm_row_classes [OF lo hi pre, of 0]
  note c0 = t0 [THEN conjunct2, THEN conjunct2, THEN conjunct2, THEN conjunct2, THEN conjunct2,
      THEN conjunct2, THEN conjunct2, THEN conjunct2, THEN conjunct1]
  from c0 e have r0: "row_classes ?s 0 = 1" by simp
  note t1 = pdipm_row_classes [OF lo hi pre, of 1]
  note c1 = t1 [THEN conjunct2, THEN conjunct2, THEN conjunct2, THEN conjunct2, THEN conjunct2,
      THEN conjunct2, THEN conjunct2, THEN conjunct2, THEN conjunct2, THEN conjunct1]
  from c1 e have r1: "row_classes ?s 1 = 1" by simp
  note t2 = pdipm_row_classes [OF lo hi pre, of 2]
  note c2 = t2 [THEN conjunct2, THEN conjunct2, THEN conjunct2, THEN conjunct2, THEN conjunct2,
      THEN conjunct2, THEN conjunct2, THEN conjunct2, THEN conjunct2, THEN conjunct2]
  from c2 have r2: "row_classes ?s 2 = 0" by simp
  show ?thesis by (intro conjI pre r0 r1 r2)
qed

text \<open>
  C5 as stated fails: the claim has every merged row in exactly one of the four
  classes. With one variable and no bounds given, the only merged row has the default
  bounds \<open>-inf\<close> and \<open>inf\<close>, and it is in none of \<^verbatim>\<open>ieq, ilt, igt, ibx\<close>: the row
  yields no constraint.
\<close>

theorem pdipm_free_row_in_no_class:
  "merged_lower 1 None None None = Inr [NInf]
   \<and> merged_upper 1 None None None = Inr [PInf]
   \<and> pdipm_preprocess 1 None None None None None
       = Inr \<lparr> ieq = [], igt = [], ilt = [], ibx = [], Ae = [], be = [], Ai = [], bi = [] \<rparr>
   \<and> row_classes \<lparr> ieq = [], igt = [], ilt = [], ibx = [], Ae = [], be = [], Ai = [], bi = [] \<rparr> 0
       = 0"
  by (simp add: merged_lower_def merged_upper_def pdipm_preprocess_def split_rows_def
      merged_rows_def eye_def row_classes_def)

section \<open>Properties of the unit decommitment driver\<close>

lemma trials_cost:
  "trials routine f stage_online cands (c, rs, oo, oc, d) = Inr (c', rs', oo', oc', d') \<Longrightarrow>
   oc' < oc \<or> (oc' = oc \<and> oo' = oo \<and> d' = d)"
proof (induction cands arbitrary: c rs oo oc d)
  case Nil
  then show ?case by simp
next
  case (Cons candidate rest)
  from Cons.prems obtain c1 where c1: "activate stage_online c = Inr c1"
    by (auto split: sum.splits)
  obtain success rs1 c2 where r: "routine rs (set_online c1 candidate False) = (success, rs1, c2)"
    by (cases "routine rs (set_online c1 candidate False)") auto
  show ?case
  proof (cases "success \<and> f rs1 < oc")
    case True
    with Cons.prems c1 r
    have "trials routine f stage_online rest (c2, rs1, online_flags c2, f rs1, False)
            = Inr (c', rs', oo', oc', d')" by simp
    from Cons.IH [OF this] True show ?thesis by auto
  next
    case False
    with Cons.prems c1 r
    have "trials routine f stage_online rest (c2, rs1, oo, oc, d) = Inr (c', rs', oo', oc', d')"
      by auto
    from Cons.IH [OF this] show ?thesis .
  qed
qed

text \<open>
  C6. Across the main loop the tracked best cost never increases: when the loop ends,
  \<^verbatim>\<open>overall_cost\<close> is at most what it was at the start (the objective of the baseline
  solve), and the best configuration \<^verbatim>\<open>overall_online\<close> differs from the initial one
  only if the cost is strictly lower. A trial replaces the best configuration only when
  the routine converged with a strictly lower objective (\<open>trials_cost\<close> is the step).
\<close>

theorem decommit_cost_non_increasing:
  assumes "decommit fuel routine f c rs stage_online overall_online overall_cost i_stage
             = Some (Inr (c', rs', overall_online', overall_cost', i_stage'))"
  shows "overall_cost' \<le> overall_cost
       \<and> (overall_cost' < overall_cost \<or> overall_online' = overall_online)"
  using assms
proof (induction fuel arbitrary: c rs stage_online overall_online overall_cost i_stage)
  case 0
  then show ?case by simp
next
  case (Suc fuel)
  from Suc.prems obtain c1 where c1: "activate stage_online c = Inr c1"
    by (auto split: sum.splits)
  show ?case
  proof (cases "shutdown_candidates c1 = []")
    case True
    with Suc.prems c1 show ?thesis by simp
  next
    case False
    with Suc.prems c1 obtain c2 rs2 oo2 oc2 d where
      t: "trials routine f stage_online (shutdown_candidates c1)
            (c1, rs, overall_online, overall_cost, True) = Inr (c2, rs2, oo2, oc2, d)"
      by (auto split: sum.splits)
    from trials_cost [OF t] have step: "oc2 < overall_cost \<or> (oc2 = overall_cost \<and> oo2 = overall_online)"
      by auto
    show ?thesis
    proof (cases d)
      case True
      with Suc.prems c1 False t step show ?thesis by auto
    next
      case d: False
      with Suc.prems c1 False t
      have "decommit fuel routine f c2 rs2 oo2 oo2 oc2 (Suc i_stage)
              = Some (Inr (c', rs', overall_online', overall_cost', i_stage'))" by simp
      from Suc.IH [OF this] step show ?thesis by auto
    qed
  qed
qed

text \<open>
  The theorem on the example case: the baseline objective is 200 with both generators
  online; stage 1 tries generator 0 (the routine fails) and generator 1 (objective 100,
  committed); stage 2 tries generator 0 again (fails) and the loop ends with cost 100.
\<close>

theorem decommit_cost_non_increasing_witness:
  "(case decommit 5 example_routine (\<lambda>r. r) example_case 200 [True, True] [True, True] 200 0 of
      Some (Inr (c', rs', overall_online', overall_cost', i_stage')) \<Rightarrow>
        overall_online' = [True, False] \<and> overall_cost' = 100 \<and> i_stage' = 2
        \<and> overall_cost' \<le> 200
    | _ \<Rightarrow> False)"
proof -
  let ?run = "decommit 5 example_routine (\<lambda>r. r) example_case 200 [True, True] [True, True] 200 0"
  have "(case ?run of Some (Inr (c', rs', oo', oc', i')) \<Rightarrow> oo' = [True, False] \<and> oc' = 100 \<and> i' = 2
          | _ \<Rightarrow> False)"
    by code_simp
  then obtain c' rs' where run: "?run = Some (Inr (c', rs', [True, False], 100, 2))"
    by (auto split: option.splits sum.splits)
  from decommit_cost_non_increasing [OF run] have "(100 :: real) \<le> 200" by simp
  with run show ?thesis by simp
qed

text \<open>
  C7. (1) When the baseline solve does not converge, \<^verbatim>\<open>solve\<close> returns False at
  once: whatever the fuel, the result is False with the routine and the case as the
  baseline solve left them, so the main loop was not entered. (2) A trial solve that
  does not converge leaves \<^verbatim>\<open>overall_online\<close>, \<^verbatim>\<open>overall_cost\<close> and \<^verbatim>\<open>done\<close> as they
  were, and the loop goes on with the remaining candidates. (3) Once the baseline solve
  has converged, \<^verbatim>\<open>solve\<close> never returns False, whatever the trial solves do.
\<close>

theorem solve_failure_handling:
  "(decommit_pmin total_cost rnd (load_capacity c) 0 c = Inr (i_stage, c0)
      \<and> routine rs c0 = (False, rs1, c1)
      \<longrightarrow> solve fuel total_cost rnd routine f rs c = Some (Inr (False, rs1, c1)))
   \<and> (activate stage_online c = Inr ca
      \<and> routine rs (set_online ca candidate False) = (False, rs', cb)
      \<longrightarrow> trials routine f stage_online (candidate # rest) (c, rs, overall_online, overall_cost, done)
          = trials routine f stage_online rest (cb, rs', overall_online, overall_cost, done))
   \<and> (decommit_pmin total_cost rnd (load_capacity c) 0 c = Inr (i_stage, c0)
      \<and> routine rs c0 = (True, rs1, c1)
      \<and> solve fuel total_cost rnd routine f rs c = Some (Inr (b, rs2, c2))
      \<longrightarrow> b)"
proof (intro conjI impI)
  assume "decommit_pmin total_cost rnd (load_capacity c) 0 c = Inr (i_stage, c0)
      \<and> routine rs c0 = (False, rs1, c1)"
  then show "solve fuel total_cost rnd routine f rs c = Some (Inr (False, rs1, c1))"
    by (simp add: solve_def)
next
  assume "activate stage_online c = Inr ca
      \<and> routine rs (set_online ca candidate False) = (False, rs', cb)"
  then show "trials routine f stage_online (candidate # rest) (c, rs, overall_online, overall_cost, done)
          = trials routine f stage_online rest (cb, rs', overall_online, overall_cost, done)"
    by simp
next
  assume "decommit_pmin total_cost rnd (load_capacity c) 0 c = Inr (i_stage, c0)
      \<and> routine rs c0 = (True, rs1, c1)
      \<and> solve fuel total_cost rnd routine f rs c = Some (Inr (b, rs2, c2))"
  then show b
    by (auto simp: solve_def split: option.splits sum.splits prod.splits)
qed

text \<open>
  The theorem on the example case. With the routine that never converges, the
  pre-pass changes nothing (the minimum generation 20 is below the load 50) and
  \<^verbatim>\<open>solve\<close> returns False with no fuel at all. With the example routine, the baseline
  converges, the first trial of stage 1 (generator 0 shut down) does not, the loop
  goes on to generator 1, and \<^verbatim>\<open>solve\<close> returns True.
\<close>

theorem solve_failure_handling_witness:
  "decommit_pmin (\<lambda>g v. v) (\<lambda>k. 0) (load_capacity example_case) 0 example_case
     = Inr (0, example_case)
   \<and> solve 0 (\<lambda>g v. v) (\<lambda>k. 0) failing_routine (\<lambda>r. r) 0 example_case
     = Some (Inr (False, 0, example_case))
   \<and> activate [True, True] example_case
     = Inr (set_online (set_online example_case 0 True) (Suc 0) True)
   \<and> example_routine 200 (set_online (set_online (set_online example_case 0 True) (Suc 0) True) 0 False)
     = (False, 100, set_online (set_online (set_online example_case 0 True) (Suc 0) True) 0 False)
   \<and> trials example_routine (\<lambda>r. r) [True, True] [0, Suc 0]
        (example_case, 200, [True, True], 200, True)
     = trials example_routine (\<lambda>r. r) [True, True] [Suc 0]
        (set_online (set_online (set_online example_case 0 True) (Suc 0) True) 0 False,
         100, [True, True], 200, True)
   \<and> example_routine 0 example_case = (True, 200, example_case)
   \<and> (case solve 5 (\<lambda>g v. v) (\<lambda>k. 0) example_routine (\<lambda>r. r) 0 example_case of
        Some (Inr (b, rs2, c2)) \<Rightarrow> b | _ \<Rightarrow> False)"
proof -
  let ?tc = "\<lambda>(g :: generator) (v :: real). v" and ?rnd = "\<lambda>k :: nat. 0 :: nat"
  let ?ca = "set_online (set_online example_case 0 True) (Suc 0) True"
  let ?cb = "set_online ?ca 0 False"
  have pre: "decommit_pmin ?tc ?rnd (load_capacity example_case) 0 example_case
      = Inr (0, example_case)"
    by (simp add: load_capacity_def online_units_def online_generators_def example_case_def
        example_generator_def)
  have fail: "failing_routine 0 example_case = (False, 0, example_case)"
    by (simp add: failing_routine_def)
  have act: "activate [True, True] example_case = Inr ?ca"
    by (simp add: activate_def example_case_def set_online_def)
  have tr: "example_routine 200 ?cb = (False, 100, ?cb)"
    by (simp add: example_routine_def online_generators_def set_online_def example_case_def
        example_generator_def)
  have base: "example_routine 0 example_case = (True, 200, example_case)"
    by (simp add: example_routine_def online_generators_def example_case_def
        example_generator_def)
  have run: "(case solve 5 ?tc ?rnd example_routine (\<lambda>r. r) 0 example_case of
        Some (Inr (b, rs2, c2)) \<Rightarrow> b | _ \<Rightarrow> False)"
    by code_simp
  then obtain b rs2 c2 where
    sol: "solve 5 ?tc ?rnd example_routine (\<lambda>r. r) 0 example_case = Some (Inr (b, rs2, c2))"
    by (auto split: option.splits sum.splits)
  note t1 = solve_failure_handling [where total_cost = ?tc and rnd = ?rnd and c = example_case
      and i_stage = 0 and c0 = example_case and routine = failing_routine and rs = 0
      and ?rs1.0 = 0 and ?c1.0 = example_case and fuel = 0 and f = "\<lambda>r. r"]
  from t1 [THEN conjunct1] pre fail
  have w1: "solve 0 ?tc ?rnd failing_routine (\<lambda>r. r) 0 example_case
      = Some (Inr (False, 0, example_case))" by blast
  note t2 = solve_failure_handling [where stage_online = "[True, True]" and c = example_case
      and ca = ?ca and routine = example_routine and rs = 200 and candidate = 0
      and rs' = 100 and cb = ?cb and f = "\<lambda>r. r" and rest = "[Suc 0]"
      and overall_online = "[True, True]" and overall_cost = 200 and ?done = True]
  from t2 [THEN conjunct2, THEN conjunct1] act tr
  have w2: "trials example_routine (\<lambda>r. r) [True, True] [0, Suc 0]
        (example_case, 200, [True, True], 200, True)
     = trials example_routine (\<lambda>r. r) [True, True] [Suc 0]
        (?cb, 100, [True, True], 200, True)" by blast
  note t3 = solve_failure_handling [where total_cost = ?tc and rnd = ?rnd and c = example_case
      and i_stage = 0 and c0 = example_case and routine = example_routine and rs = 0
      and ?rs1.0 = 200 and ?c1.0 = example_case and fuel = 5 and f = "\<lambda>r. r"
      and b = b and ?rs2.0 = rs2 and ?c2.0 = c2]
  from t3 [THEN conjunct2, THEN conjunct2] pre base sol have b by blast
  with sol have w3: "(case solve 5 ?tc ?rnd example_routine (\<lambda>r. r) 0 example_case of
        Some (Inr (b, rs2, c2)) \<Rightarrow> b | _ \<Rightarrow> False)" by simp
  show ?thesis by (intro conjI pre w1 act tr w2 base w3)
qed

section \<open>Properties of the DC optimal power flow routine\<close>

lemma bind_err_InrE:
  assumes "bind_err m k = Inr y"
  obtains a where "m = Inr a" and "k a = Inr y"
  using assms by (cases m) auto

lemma bind_err_Inl_iff: "bind_err m k = Inl e \<longleftrightarrow> m = Inl e \<or> (\<exists>a. m = Inr a \<and> k a = Inl e)"
  by (cases m) auto

text \<open>
  C4. The claim: for every online branch the quiescent injection at the source end is
  \<open>- b \<cdot> shift\<close> in radians with \<open>b\<close> the series susceptance \<open>1 / x\<close>, a zero
  reactance being replaced by a very large value. The code multiplies the angle by the
  reactance itself: the list named \<^verbatim>\<open>susc\<close> is filled with \<^verbatim>\<open>branch.x\<close>, not with
  \<^verbatim>\<open>1 / branch.x\<close> (the line it replaces, kept as a comment, has \<^verbatim>\<open>1/e.x\<close>). For the
  branch of the example case, with reactance 2 and a shift of 180 degrees, the code
  gives \<open>2 \<cdot> (- 180 \<cdot> pi / 180)\<close>, and the claim \<open>(1 / 2) \<cdot> (- 180 \<cdot> pi / 180)\<close>.
\<close>

theorem theta_inj_source_uses_reactance:
  "online_branches example_case = [0]
   \<and> x_react (branch_obj example_case 0) = 2
   \<and> phase_shift (branch_obj example_case 0) = 180
   \<and> self_theta_inj_source (build_theta_inj_source example_case new_routine)
       = [2 * (- 180 * py_pi / 180)]
   \<and> 2 * (- 180 * py_pi / 180) \<noteq> (1 / 2) * (- 180 * py_pi / 180)"
  by (simp add: build_theta_inj_source_def example_case_def example_branch_def py_pi_def)

text \<open>The test for mixed cost models is the condition under which the check raises.\<close>

lemma formulate_mixed:
  assumes "mixed_cost_models n"
  shows "\<exists>e. formulate msm n st = Inl e"
    and "msm n = Inr (B, Bs) \<Longrightarrow>
         build_theta_inj_bus n (build_theta_inj_source n (st\<lparr>self_B := B, self_B_source := Bs\<rparr>))
           = Inr st2 \<Longrightarrow>
         formulate msm n st = Inl (NotImplementedError
                  ''Yet to implement polynomial to piecewise linear conversion'')"
proof -
  have chk: "check_cost_model_consistency n s = Inl (NotImplementedError
                  ''Yet to implement polynomial to piecewise linear conversion'')" for s
    using assms by (simp add: check_cost_model_consistency_def mixed_cost_models_def)
  show "\<exists>e. formulate msm n st = Inl e"
  proof (cases "msm n")
    case (Inl e)
    then show ?thesis by (simp add: formulate_def)
  next
    case (Inr BB)
    obtain B' Bs' where BB: "BB = (B', Bs')" by (cases BB)
    show ?thesis
    proof (cases "build_theta_inj_bus n
        (build_theta_inj_source n (st\<lparr>self_B := B', self_B_source := Bs'\<rparr>))")
      case (Inl e)
      with Inr BB show ?thesis by (simp add: formulate_def)
    next
      case st2: (Inr st2')
      with Inr BB chk show ?thesis by (simp add: formulate_def)
    qed
  qed
  show "formulate msm n st = Inl (NotImplementedError
                  ''Yet to implement polynomial to piecewise linear conversion'')"
    if "msm n = Inr (B, Bs)"
      and "build_theta_inj_bus n (build_theta_inj_source n (st\<lparr>self_B := B, self_B_source := Bs\<rparr>))
           = Inr st2"
    using that chk by (simp add: formulate_def)
qed

text \<open>
  C8. \<^verbatim>\<open>_check_cost_model_consistency\<close> raises iff the cost models of the online
  generators include both \<^verbatim>\<open>"Polynomial"\<close> and \<^verbatim>\<open>"Piecewise Linear"\<close>, and then it
  raises \<^verbatim>\<open>NotImplementedError\<close> with its message. With such a mix \<^verbatim>\<open>__call__\<close> ends in
  an exception with the network untouched and without consulting the solver (its
  outcome is the same for any two solvers); when the susceptance matrices and the bus
  injections are built without an exception, the exception is this one. Without a mix
  the check only sets the solver type: nothing is converted.
\<close>

theorem cost_model_mix_rejected:
  "((\<exists>e. check_cost_model_consistency n st = Inl e) \<longleftrightarrow> mixed_cost_models n)
   \<and> (mixed_cost_models n \<longrightarrow>
        check_cost_model_consistency n st
          = Inl (NotImplementedError ''Yet to implement polynomial to piecewise linear conversion'')
        \<and> (\<exists>e. call qp msm st n = (Inl e, n))
        \<and> call qp msm st n = call qp' msm st n)
   \<and> (mixed_cost_models n \<and> msm n = Inr (B, Bs)
        \<and> build_theta_inj_bus n (build_theta_inj_source n (st\<lparr>self_B := B, self_B_source := Bs\<rparr>))
            = Inr st2 \<longrightarrow>
        call qp msm st n
          = (Inl (NotImplementedError ''Yet to implement polynomial to piecewise linear conversion''),
             n))
   \<and> (\<not> mixed_cost_models n \<longrightarrow>
        check_cost_model_consistency n st
          = Inr (st\<lparr>self_solver_type :=
                      (if ''Polynomial'' \<notin> set (cost_models n) then ''linear'' else ''quadratic'')\<rparr>))"
proof (intro conjI impI)
  show "(\<exists>e. check_cost_model_consistency n st = Inl e) \<longleftrightarrow> mixed_cost_models n"
    by (auto simp: check_cost_model_consistency_def mixed_cost_models_def Let_def)
next
  assume m: "mixed_cost_models n"
  then show "check_cost_model_consistency n st
          = Inl (NotImplementedError ''Yet to implement polynomial to piecewise linear conversion'')"
    by (simp add: check_cost_model_consistency_def mixed_cost_models_def)
  from formulate_mixed(1) [OF m] obtain e where e: "formulate msm n st = Inl e" by blast
  then show "\<exists>e. call qp msm st n = (Inl e, n)" by (simp add: call_def)
  from e show "call qp msm st n = call qp' msm st n" by (simp add: call_def)
next
  assume a: "mixed_cost_models n \<and> msm n = Inr (B, Bs)
        \<and> build_theta_inj_bus n (build_theta_inj_source n (st\<lparr>self_B := B, self_B_source := Bs\<rparr>))
            = Inr st2"
  then have "formulate msm n st = Inl (NotImplementedError
                  ''Yet to implement polynomial to piecewise linear conversion'')"
    using formulate_mixed(2) [of n msm B Bs st st2] by blast
  then show "call qp msm st n
          = (Inl (NotImplementedError ''Yet to implement polynomial to piecewise linear conversion''),
             n)"
    by (simp add: call_def)
next
  assume "\<not> mixed_cost_models n"
  then show "check_cost_model_consistency n st
          = Inr (st\<lparr>self_solver_type :=
                      (if ''Polynomial'' \<notin> set (cost_models n) then ''linear'' else ''quadratic'')\<rparr>)"
    by (auto simp: check_cost_model_consistency_def mixed_cost_models_def Let_def)
qed

text \<open>
  The theorem on the example: with generator 1 piecewise linear the call raises the
  error whatever the solver; with both generators polynomial the check selects the
  quadratic solver.
\<close>

theorem cost_model_mix_rejected_witness:
  "mixed_cost_models example_mixed_case
   \<and> check_cost_model_consistency example_mixed_case new_routine
       = Inl (NotImplementedError ''Yet to implement polynomial to piecewise linear conversion'')
   \<and> call optimal_qp example_susceptance new_routine example_mixed_case
       = (Inl (NotImplementedError ''Yet to implement polynomial to piecewise linear conversion''),
          example_mixed_case)
   \<and> call optimal_qp example_susceptance new_routine example_mixed_case
       = call unknown_qp example_susceptance new_routine example_mixed_case
   \<and> \<not> mixed_cost_models example_case
   \<and> check_cost_model_consistency example_case new_routine
       = Inr (new_routine\<lparr>self_solver_type := ''quadratic''\<rparr>)"
proof -
  let ?B = "[[1 / 2, - (1 / 2)], [- (1 / 2), 1 / 2 :: real]]" and ?Bs = "[[1 / 2, - (1 / 2) :: real]]"
  have m: "mixed_cost_models example_mixed_case"
    by (simp add: mixed_cost_models_def cost_models_def online_generators_def
        example_mixed_case_def example_case_def example_generator_def)
  have cm: "cost_models example_case = [''Polynomial'', ''Polynomial'']"
    by (simp add: cost_models_def online_generators_def example_case_def example_generator_def)
  then have nm: "\<not> mixed_cost_models example_case"
    by (simp add: mixed_cost_models_def)
  have msm: "example_susceptance example_mixed_case = Inr (?B, ?Bs)"
    by (simp add: example_susceptance_def)
  have "(case build_theta_inj_bus example_mixed_case (build_theta_inj_source example_mixed_case
            (new_routine\<lparr>self_B := ?B, self_B_source := ?Bs\<rparr>)) of
          Inr st2 \<Rightarrow> True | Inl e \<Rightarrow> False)"
    by code_simp
  then obtain st2 where st2: "build_theta_inj_bus example_mixed_case
      (build_theta_inj_source example_mixed_case
        (new_routine\<lparr>self_B := ?B, self_B_source := ?Bs\<rparr>)) = Inr st2"
    by (auto split: sum.splits)
  note t1 = cost_model_mix_rejected [of example_mixed_case new_routine optimal_qp
      example_susceptance unknown_qp ?B ?Bs st2]
  note t2 = cost_model_mix_rejected [of example_case new_routine optimal_qp
      example_susceptance unknown_qp ?B ?Bs st2]
  from t1 m have a: "check_cost_model_consistency example_mixed_case new_routine
       = Inl (NotImplementedError ''Yet to implement polynomial to piecewise linear conversion'')"
    and c: "call optimal_qp example_susceptance new_routine example_mixed_case
       = call unknown_qp example_susceptance new_routine example_mixed_case"
    by blast+
  from t1 [THEN conjunct2, THEN conjunct2, THEN conjunct1] m msm st2
  have b: "call optimal_qp example_susceptance new_routine example_mixed_case
       = (Inl (NotImplementedError ''Yet to implement polynomial to piecewise linear conversion''),
          example_mixed_case)"
    by blast
  from t2 nm have "check_cost_model_consistency example_case new_routine
       = Inr (new_routine\<lparr>self_solver_type :=
           (if ''Polynomial'' \<notin> set (cost_models example_case) then ''linear'' else ''quadratic'')\<rparr>)"
    by blast
  then have d: "check_cost_model_consistency example_case new_routine
       = Inr (new_routine\<lparr>self_solver_type := ''quadratic''\<rparr>)"
    by (simp add: cm)
  show ?thesis by (intro conjI m a b c nm d)
qed

lemma map_err_py_index:
  "set xs \<subseteq> set buses \<Longrightarrow>
   map_err (py_index buses) xs = Inr (map (\<lambda>v. length (takeWhile (\<lambda>y. y \<noteq> v) buses)) xs)"
  by (induction xs) (simp_all add: py_index_def)

lemma nth_first_index: "v \<in> set xs \<Longrightarrow> xs ! length (takeWhile (\<lambda>y. y \<noteq> v) xs) = v"
  by (induction xs) auto

lemma reference_index_less:
  "connected_buses n \<noteq> [] \<Longrightarrow> reference_index n < length (connected_buses n)"
proof (cases "slack_buses n")
  case Nil
  assume "connected_buses n \<noteq> []"
  with Nil show ?thesis by (simp add: reference_index_def)
next
  case (Cons v vs)
  then have "v \<in> set (slack_buses n)" by simp
  then have "v \<in> set (connected_buses n)" by (simp add: slack_buses_def)
  with Cons show ?thesis by (simp add: reference_index_def length_takeWhile_neq)
qed

lemma build_reference_angle_constraint_eq:
  "build_reference_angle_constraint n st =
     (if 1 < length (slack_buses n) then Inl (ValueError ''More than one slack/reference bus'')
      else
        bind_err (mat_set (spzeros 1 (length (connected_buses n) + length (online_generators n)
                       + (if self_solver_type st = ''linear'' then length (online_generators n) else 0)))
                    0 (reference_index n) 1) (\<lambda>a_ref.
        bind_err (py_nth (connected_buses n) (reference_index n)) (\<lambda>v.
        Inr (st\<lparr>self_aa_ref := a_ref, self_bb_ref := [v_phase_guess (bus_obj n v)]\<rparr>))))"
proof (cases "slack_buses n")
  case Nil
  then have f: "filter (\<lambda>v. slack (bus_obj n v)) (connected_buses n) = []"
    by (simp add: slack_buses_def)
  show ?thesis
    unfolding build_reference_angle_constraint_def Let_def f
    by (simp add: Nil reference_index_def)
next
  case (Cons v vs)
  then have f: "filter (\<lambda>v. slack (bus_obj n v)) (connected_buses n) = v # vs"
    by (simp add: slack_buses_def)
  have "set (v # vs) \<subseteq> set (connected_buses n)"
    unfolding f [symmetric] by auto
  from map_err_py_index [OF this]
  have idx: "map_err (py_index (connected_buses n)) (v # vs)
      = Inr (map (\<lambda>v. length (takeWhile (\<lambda>y. y \<noteq> v) (connected_buses n))) (v # vs))" .
  show ?thesis
    unfolding build_reference_angle_constraint_def Let_def f idx
    by (cases vs) (simp_all add: Cons reference_index_def)
qed

lemma reference_row_many:
  assumes "1 < length (slack_buses n)"
  shows "build_reference_angle_constraint n st
           = Inl (ValueError ''More than one slack/reference bus'')"
  using assms by (simp add: build_reference_angle_constraint_eq)

lemma reference_row_built:
  assumes few: "length (slack_buses n) \<le> 1" and ne: "connected_buses n \<noteq> []"
  shows "build_reference_angle_constraint n st
       = Inr (st\<lparr>self_aa_ref :=
                   [(replicate (length (connected_buses n) + length (online_generators n)
                       + (if self_solver_type st = ''linear'' then length (online_generators n) else 0)) 0)
                    [reference_index n := 1]],
                 self_bb_ref :=
                   [v_phase_guess (bus_obj n (connected_buses n ! reference_index n))]\<rparr>)"
proof -
  from reference_index_less [OF ne] have less: "reference_index n < length (connected_buses n)" .
  from few have "\<not> 1 < length (slack_buses n)" by simp
  then show ?thesis
    using less
    by (simp add: build_reference_angle_constraint_eq mat_set_def spzeros_def py_nth_def)
qed

lemma reference_row_no_bus:
  assumes "connected_buses n = []"
  shows "build_reference_angle_constraint n st = Inl IndexError"
proof -
  from assms have s: "slack_buses n = []" by (simp add: slack_buses_def)
  then have r: "reference_index n = 0" by (simp add: reference_index_def)
  show ?thesis
    by (simp add: build_reference_angle_constraint_eq s r assms mat_set_def spzeros_def py_nth_def)
qed

text \<open>
  C9 (as amended). \<^verbatim>\<open>_build_reference_angle_constraint\<close> raises \<^verbatim>\<open>ValueError\<close>
  "More than one slack/reference bus" iff more than one connected bus is flagged as
  slack, on every network. On a network with at least one connected bus it raises
  nothing else: it raises iff more than one bus is flagged, and otherwise it builds
  the row with a single 1 in the column of the reference bus and the right-hand side
  \<^verbatim>\<open>v_phase_guess\<close> of that bus, the reference bus being the flagged bus or, when none
  is flagged, the first bus.
\<close>

theorem reference_bus_selection:
  "(build_reference_angle_constraint n st = Inl (ValueError ''More than one slack/reference bus'')
      \<longleftrightarrow> 1 < length (slack_buses n))
   \<and> (connected_buses n \<noteq> [] \<longrightarrow>
        ((\<exists>e. build_reference_angle_constraint n st = Inl e) \<longleftrightarrow> 1 < length (slack_buses n)))
   \<and> (connected_buses n \<noteq> [] \<and> length (slack_buses n) \<le> 1 \<longrightarrow>
        build_reference_angle_constraint n st
          = Inr (st\<lparr>self_aa_ref :=
                   [(replicate (length (connected_buses n) + length (online_generators n)
                       + (if self_solver_type st = ''linear'' then length (online_generators n) else 0)) 0)
                    [reference_index n := 1]],
                 self_bb_ref :=
                   [v_phase_guess (bus_obj n (connected_buses n ! reference_index n))]\<rparr>)
        \<and> reference_index n < length (connected_buses n)
        \<and> (slack_buses n = [] \<longrightarrow> reference_index n = 0)
        \<and> (slack_buses n \<noteq> [] \<longrightarrow>
             slack_buses n = [connected_buses n ! reference_index n]))"
proof (intro conjI impI)
  show "build_reference_angle_constraint n st = Inl (ValueError ''More than one slack/reference bus'')
      \<longleftrightarrow> 1 < length (slack_buses n)"
  proof (cases "1 < length (slack_buses n)")
    case True
    then show ?thesis by (simp add: reference_row_many)
  next
    case False
    then have few: "length (slack_buses n) \<le> 1" by simp
    show ?thesis
    proof (cases "connected_buses n = []")
      case True
      with False show ?thesis by (simp add: reference_row_no_bus)
    next
      case ne: False
      from reference_row_built [OF few ne, of st] False show ?thesis by simp
    qed
  qed
next
  assume ne: "connected_buses n \<noteq> []"
  show "(\<exists>e. build_reference_angle_constraint n st = Inl e) \<longleftrightarrow> 1 < length (slack_buses n)"
  proof (cases "1 < length (slack_buses n)")
    case True
    then show ?thesis by (simp add: reference_row_many)
  next
    case False
    then have few: "length (slack_buses n) \<le> 1" by simp
    from reference_row_built [OF few ne, of st] False show ?thesis by simp
  qed
next
  assume a: "connected_buses n \<noteq> [] \<and> length (slack_buses n) \<le> 1"
  then show "build_reference_angle_constraint n st
          = Inr (st\<lparr>self_aa_ref :=
                   [(replicate (length (connected_buses n) + length (online_generators n)
                       + (if self_solver_type st = ''linear'' then length (online_generators n) else 0)) 0)
                    [reference_index n := 1]],
                 self_bb_ref :=
                   [v_phase_guess (bus_obj n (connected_buses n ! reference_index n))]\<rparr>)"
    by (simp add: reference_row_built)
  from a show "reference_index n < length (connected_buses n)"
    by (simp add: reference_index_less)
next
  assume "slack_buses n = []"
  then show "reference_index n = 0" by (simp add: reference_index_def)
next
  assume a: "connected_buses n \<noteq> [] \<and> length (slack_buses n) \<le> 1" and s: "slack_buses n \<noteq> []"
  then obtain v where v: "slack_buses n = [v]"
    by (cases "slack_buses n") auto
  then have "v \<in> set (slack_buses n)" by simp
  then have "v \<in> set (connected_buses n)" by (simp add: slack_buses_def)
  then have "connected_buses n ! reference_index n = v"
    using v by (simp add: reference_index_def nth_first_index)
  with v show "slack_buses n = [connected_buses n ! reference_index n]" by simp
qed


text \<open>
  The theorem on the example case (bus A flagged: the row is built for position 0),
  on the case with both buses flagged (the error), and on the case with no bus flagged
  (the row is built for the first bus).
\<close>

theorem reference_bus_selection_witness:
  "connected_buses example_case \<noteq> []
   \<and> slack_buses example_case = [0]
   \<and> reference_index example_case = 0
   \<and> build_reference_angle_constraint example_case (new_routine\<lparr>self_solver_type := ''quadratic''\<rparr>)
       = Inr (new_routine\<lparr>self_solver_type := ''quadratic'',
                         self_aa_ref := [[1, 0, 0, 0]], self_bb_ref := [0]\<rparr>)
   \<and> slack_buses (example_case\<lparr>bus_obj := (\<lambda>_. example_bus_a)\<rparr>) = [0, 1]
   \<and> build_reference_angle_constraint (example_case\<lparr>bus_obj := (\<lambda>_. example_bus_a)\<rparr>)
         (new_routine\<lparr>self_solver_type := ''quadratic''\<rparr>)
       = Inl (ValueError ''More than one slack/reference bus'')
   \<and> slack_buses (example_case\<lparr>bus_obj := (\<lambda>_. example_bus_b)\<rparr>) = []
   \<and> build_reference_angle_constraint (example_case\<lparr>bus_obj := (\<lambda>_. example_bus_b)\<rparr>)
         (new_routine\<lparr>self_solver_type := ''quadratic''\<rparr>)
       = Inr (new_routine\<lparr>self_solver_type := ''quadratic'',
                         self_aa_ref := [[1, 0, 0, 0]], self_bb_ref := [0]\<rparr>)"
proof -
  let ?st = "new_routine\<lparr>self_solver_type := ''quadratic''\<rparr>"
  let ?two = "example_case\<lparr>bus_obj := (\<lambda>_. example_bus_a)\<rparr>"
  let ?none = "example_case\<lparr>bus_obj := (\<lambda>_. example_bus_b)\<rparr>"
  have ne: "connected_buses example_case \<noteq> []" "connected_buses ?none \<noteq> []"
    by (simp_all add: example_case_def)
  have s1: "slack_buses example_case = [0]"
    by (simp add: slack_buses_def example_case_def example_bus_a_def example_bus_b_def)
  have s2: "slack_buses ?two = [0, 1]"
    by (simp add: slack_buses_def example_case_def example_bus_a_def)
  have s0: "slack_buses ?none = []"
    by (simp add: slack_buses_def example_case_def example_bus_b_def)
  have r1: "reference_index example_case = 0"
    unfolding reference_index_def s1 by (simp add: example_case_def)
  have r0: "reference_index ?none = 0"
    by (simp add: reference_index_def s0)
  have og: "length (online_generators example_case) = 2" "length (online_generators ?none) = 2"
    by (simp_all add: online_generators_def example_case_def example_generator_def)
  have cb: "length (connected_buses example_case) = 2" "length (connected_buses ?none) = 2"
    by (simp_all add: example_case_def)
  have g1: "v_phase_guess (bus_obj example_case (connected_buses example_case ! 0)) = 0"
    by (simp add: example_case_def example_bus_a_def)
  have gb: "v_phase_guess example_bus_b = 0"
    by (simp add: example_bus_b_def)
  have row: "(replicate 4 (0 :: real))[0 := 1] = [1, 0, 0, 0]"
    by code_simp
  note t1 = reference_bus_selection [of example_case ?st, THEN conjunct2, THEN conjunct2]
  from t1 ne(1) s1 have
    "build_reference_angle_constraint example_case ?st
       = Inr (?st\<lparr>self_aa_ref :=
                   [(replicate (length (connected_buses example_case)
                       + length (online_generators example_case)
                       + (if self_solver_type ?st = ''linear''
                          then length (online_generators example_case) else 0)) 0)
                    [reference_index example_case := 1]],
                 self_bb_ref :=
                   [v_phase_guess (bus_obj example_case
                      (connected_buses example_case ! reference_index example_case))]\<rparr>)"
    by simp
  then have b1: "build_reference_angle_constraint example_case ?st
       = Inr (?st\<lparr>self_aa_ref := [[1, 0, 0, 0]], self_bb_ref := [0]\<rparr>)"
    by (simp add: og cb r1 g1 row)
  note t2 = reference_bus_selection [of ?two ?st, THEN conjunct1]
  from t2 s2 have b2: "build_reference_angle_constraint ?two ?st
       = Inl (ValueError ''More than one slack/reference bus'')"
    by simp
  note t0 = reference_bus_selection [of ?none ?st, THEN conjunct2, THEN conjunct2]
  from t0 ne(2) s0 have
    "build_reference_angle_constraint ?none ?st
       = Inr (?st\<lparr>self_aa_ref :=
                   [(replicate (length (connected_buses ?none)
                       + length (online_generators ?none)
                       + (if self_solver_type ?st = ''linear''
                          then length (online_generators ?none) else 0)) 0)
                    [reference_index ?none := 1]],
                 self_bb_ref :=
                   [v_phase_guess (bus_obj ?none
                      (connected_buses ?none ! reference_index ?none))]\<rparr>)"
    by simp
  then have b0: "build_reference_angle_constraint ?none ?st
       = Inr (?st\<lparr>self_aa_ref := [[1, 0, 0, 0]], self_bb_ref := [0]\<rparr>)"
    by (simp add: og cb r0 gb row)
  show ?thesis by (intro conjI ne(1) s1 r1 b1 s2 b2 s0 b0)
qed

text \<open>
  C9 as stated fails on a network without connected buses: no bus is flagged, and the
  method raises \<^verbatim>\<open>IndexError\<close> (there is no first bus to take as reference).
\<close>

theorem reference_bus_selection_no_bus:
  "slack_buses (example_case\<lparr>connected_buses := []\<rparr>) = []
   \<and> build_reference_angle_constraint (example_case\<lparr>connected_buses := []\<rparr>) new_routine
       = Inl IndexError"
  by (simp add: slack_buses_def reference_row_no_bus)

lemma mat_set_length: "mat_set M i j v = Inr M' \<Longrightarrow> length M' = length M"
  by (auto simp: mat_set_def split: if_splits)

lemma incidence_loop_length:
  "incidence_loop n buses k es (S, T) = Inr (S', T') \<Longrightarrow> length S' = length S \<and> length T' = length T"
proof (induction es arbitrary: k S T)
  case Nil
  then show ?case by simp
next
  case (Cons e es)
  from Cons.prems show ?case
    by (auto elim!: bind_err_InrE dest!: Cons.IH dest: mat_set_length)
qed

lemma generator_column_loop_length:
  "generator_column_loop i gs (j, inc) = Inr (j', inc') \<Longrightarrow> length inc' = length inc"
  by (induction gs arbitrary: j inc) (auto elim!: bind_err_InrE dest: mat_set_length)

lemma bus_generator_loop_length:
  "bus_generator_loop n buses vs (j, inc) = Inr (j', inc') \<Longrightarrow> length inc' = length inc"
proof (induction vs arbitrary: j inc)
  case Nil
  then show ?case by simp
next
  case (Cons v vs)
  from Cons.prems show ?case
    by (auto elim!: bind_err_InrE dest!: Cons.IH dest: generator_column_loop_length
        split: prod.splits)
qed

lemma length_mat_vec: "length (mat_vec M v) = length M"
  by (simp add: mat_vec_def)

lemma build_theta_inj_bus_Inr:
  assumes "build_theta_inj_bus n st = Inr st'"
  shows "\<exists>v. st' = st\<lparr>self_theta_inj_bus := v\<rparr> \<and> length v = length (connected_buses n)"
proof -
  from assms obtain S T where
    loop: "incidence_loop n (connected_buses n) 0 (online_branches n)
             (spzeros (length (connected_buses n)) (length (online_branches n)),
              spzeros (length (connected_buses n)) (length (online_branches n))) = Inr (S, T)"
    and st': "st' = st\<lparr>self_theta_inj_bus :=
        map (\<lambda>(a, b). a + b)
          (zip (mat_vec S (self_theta_inj_source st))
               (mat_vec T (map uminus (self_theta_inj_source st))))\<rparr>"
    by (auto simp: build_theta_inj_bus_def Let_def elim!: bind_err_InrE)
  from incidence_loop_length [OF loop]
  have "length S = length (connected_buses n)" "length T = length (connected_buses n)"
    by (simp_all add: spzeros_def)
  then have "length (map (\<lambda>(a, b). a + b)
          (zip (mat_vec S (self_theta_inj_source st))
               (mat_vec T (map uminus (self_theta_inj_source st))))) = length (connected_buses n)"
    by (simp add: length_mat_vec)
  with st' show ?thesis by blast
qed

lemma check_cost_model_consistency_Inr:
  assumes "check_cost_model_consistency n st = Inr st'"
  shows "\<exists>t. st' = st\<lparr>self_solver_type := t\<rparr> \<and> (t = ''linear'' \<or> t = ''quadratic'')"
  using assms by (auto simp: check_cost_model_consistency_def Let_def split: if_splits)

lemma build_cost_constraint_Inr:
  assumes "build_cost_constraint n st = Inr st'"
  shows "\<exists>a b. st' = st\<lparr>self_aa_cost := a, self_bb_cost := b\<rparr>
           \<and> (self_solver_type st = ''quadratic'' \<longrightarrow> a = [] \<and> b = [])"
  using assms
  by (auto simp: build_cost_constraint_def Let_def spzeros_def elim!: bind_err_InrE
      split: if_splits)

lemma build_active_power_flow_equations_Inr:
  assumes "build_active_power_flow_equations n st = Inr st'"
  shows "self_solver_type st \<noteq> ''linear'' \<and>
    (\<exists>j inc. bus_generator_loop n (connected_buses n) (connected_buses n)
               (0, spzeros (length (connected_buses n)) (length (online_generators n))) = Inr (j, inc)
       \<and> length inc = length (connected_buses n)
       \<and> st' = st\<lparr>self_aa_mismatch :=
                     hcat (hcat (self_B st) (mat_neg inc)) (spzeros (length (connected_buses n)) 0),
                   self_bb_mismatch :=
                     map (\<lambda>((d, g), inj). - (d + g) - inj)
                       (zip (zip (map (\<lambda>v. p_demand (bus_obj n v)) (connected_buses n))
                                 (map (\<lambda>v. g_shunt (bus_obj n v)) (connected_buses n)))
                            (self_theta_inj_bus st))\<rparr>)"
proof (cases "self_solver_type st = ''linear''")
  case True
  with assms show ?thesis
    by (auto simp: build_active_power_flow_equations_def Let_def elim!: bind_err_InrE)
next
  case False
  with assms obtain j inc where
    loop: "bus_generator_loop n (connected_buses n) (connected_buses n)
               (0, spzeros (length (connected_buses n)) (length (online_generators n))) = Inr (j, inc)"
    and st': "st' = st\<lparr>self_aa_mismatch :=
                     hcat (hcat (self_B st) (mat_neg inc)) (spzeros (length (connected_buses n)) 0),
                   self_bb_mismatch :=
                     map (\<lambda>((d, g), inj). - (d + g) - inj)
                       (zip (zip (map (\<lambda>v. p_demand (bus_obj n v)) (connected_buses n))
                                 (map (\<lambda>v. g_shunt (bus_obj n v)) (connected_buses n)))
                            (self_theta_inj_bus st))\<rparr>"
    by (auto simp: build_active_power_flow_equations_def Let_def elim!: bind_err_InrE)
  from bus_generator_loop_length [OF loop] have "length inc = length (connected_buses n)"
    by (simp add: spzeros_def)
  with loop st' False show ?thesis by blast
qed

lemma build_h_Inr:
  assumes "build_h n st = Inr st'"
  shows "\<exists>h. st' = st\<lparr>self_hh := h\<rparr>"
  using assms by (auto simp: build_h_def Let_def split: if_splits)

lemma build_c_Inr:
  assumes "build_c n st = Inr st'"
  shows "\<exists>c. st' = st\<lparr>self_cc := c\<rparr>"
  using assms by (auto simp: build_c_def Let_def split: if_splits)

lemma formulate_stages:
  assumes "formulate msm n st0 = Inr st"
  obtains B Bs st2 st3 st5 st6 st7 st11 where
    "msm n = Inr (B, Bs)"
    "build_theta_inj_bus n (build_theta_inj_source n (st0\<lparr>self_B := B, self_B_source := Bs\<rparr>)) = Inr st2"
    "check_cost_model_consistency n st2 = Inr st3"
    "build_cost_constraint n (build_x n st3) = Inr st5"
    "build_reference_angle_constraint n st5 = Inr st6"
    "build_active_power_flow_equations n st6 = Inr st7"
    "build_h n (build_bb_inequality (build_bb_equality (build_AA_inequality (build_AA_equality
        (build_branch_flow_limit_constraint n (build_generation_limit_constraint n st7))))))
       = Inr st11"
    "build_c n st11 = Inr st"
  using assms unfolding formulate_def
  by (auto elim!: bind_err_InrE)


lemma hcat_spzeros_right: "length X \<le> r \<Longrightarrow> hcat X (spzeros r 0) = X"
proof (induction X arbitrary: r)
  case Nil
  then show ?case by (simp add: hcat_def)
next
  case (Cons x X)
  then obtain r' where r: "r = Suc r'" by (cases r) auto
  with Cons.prems have "length X \<le> r'" by simp
  from Cons.IH [OF this] r show ?case by (simp add: hcat_def spzeros_def)
qed

lemma hcat_spzeros_left: "length M = r \<Longrightarrow> hcat (spzeros r c) M = map (\<lambda>row. replicate c 0 @ row) M"
proof (induction M arbitrary: r)
  case Nil
  then show ?case by (simp add: hcat_def)
next
  case (Cons x M)
  then obtain r' where r: "r = Suc r'" by (cases r) auto
  with Cons.prems have "length M = r'" by simp
  from Cons.IH [OF this] r show ?case by (simp add: hcat_def spzeros_def)
qed

lemma hcat_mat_neg: "hcat B (mat_neg inc) = map (\<lambda>(b, g). b @ map uminus g) (zip B inc)"
  by (simp add: hcat_def mat_neg_def zip_map2 case_prod_unfold)

lemma length_hcat: "length (hcat M N) = min (length M) (length N)"
  by (simp add: hcat_def)

lemma length_eye: "length (eye k) = k"
  by (simp add: eye_def)

lemma build_x_eq: "build_x n st = st\<lparr>self_x0 := self_x0 (build_x n st)\<rparr>"
  by (simp add: build_x_def Let_def)

lemma build_x_solver_type: "self_solver_type (build_x n st) = self_solver_type st"
  by (subst build_x_eq) simp

lemma build_theta_inj_source_eq:
  "build_theta_inj_source n st
     = st\<lparr>self_theta_inj_source := self_theta_inj_source (build_theta_inj_source n st)\<rparr>"
  by (simp add: build_theta_inj_source_def Let_def)

lemma build_theta_inj_source_indep:
  "self_theta_inj_source (build_theta_inj_source n st)
     = self_theta_inj_source (build_theta_inj_source n st')"
  by (simp add: build_theta_inj_source_def Let_def)

lemma build_reference_angle_constraint_Inr:
  assumes "build_reference_angle_constraint n st = Inr st'"
  shows "connected_buses n \<noteq> [] \<and> length (slack_buses n) \<le> 1
       \<and> st' = st\<lparr>self_aa_ref :=
                   [(replicate (length (connected_buses n) + length (online_generators n)
                       + (if self_solver_type st = ''linear'' then length (online_generators n) else 0)) 0)
                    [reference_index n := 1]],
                 self_bb_ref :=
                   [v_phase_guess (bus_obj n (connected_buses n ! reference_index n))]\<rparr>"
proof -
  have ne: "connected_buses n \<noteq> []"
    using assms reference_row_no_bus [of n st] by auto
  have few: "length (slack_buses n) \<le> 1"
    using assms reference_row_many [of n st] by (cases "1 < length (slack_buses n)") auto
  from reference_row_built [OF few ne, of st] assms ne few show ?thesis by simp
qed

lemma formulate_fields:
  assumes f: "formulate msm n st0 = Inr st"
  shows "\<exists>B Bs j inc v h c x.
      msm n = Inr (B, Bs)
    \<and> bus_generator_loop n (connected_buses n) (connected_buses n)
        (0, spzeros (length (connected_buses n)) (length (online_generators n))) = Inr (j, inc)
    \<and> length inc = length (connected_buses n)
    \<and> length v = length (connected_buses n)
    \<and> connected_buses n \<noteq> [] \<and> length (slack_buses n) \<le> 1
    \<and> st = (build_bb_inequality (build_bb_equality (build_AA_inequality (build_AA_equality
        (build_branch_flow_limit_constraint n (build_generation_limit_constraint n
          (st0\<lparr>self_B := B, self_B_source := Bs,
               self_theta_inj_source :=
                 self_theta_inj_source (build_theta_inj_source n st0),
               self_theta_inj_bus := v,
               self_solver_type := ''quadratic'',
               self_x0 := x,
               self_aa_cost := [], self_bb_cost := [],
               self_aa_ref :=
                   [(replicate (length (connected_buses n) + length (online_generators n)) 0)
                    [reference_index n := 1]],
               self_bb_ref :=
                   [v_phase_guess (bus_obj n (connected_buses n ! reference_index n))],
               self_aa_mismatch :=
                     hcat (hcat B (mat_neg inc)) (spzeros (length (connected_buses n)) 0),
               self_bb_mismatch :=
                     map (\<lambda>((d, g), inj). - (d + g) - inj)
                       (zip (zip (map (\<lambda>v. p_demand (bus_obj n v)) (connected_buses n))
                                 (map (\<lambda>v. g_shunt (bus_obj n v)) (connected_buses n)))
                            v)\<rparr>)))))))
          \<lparr>self_hh := h, self_cc := c\<rparr>"
proof -
  from f obtain B Bs st2 st3 st5 st6 st7 st11 where
    msm: "msm n = Inr (B, Bs)"
    and s2: "build_theta_inj_bus n (build_theta_inj_source n (st0\<lparr>self_B := B, self_B_source := Bs\<rparr>)) = Inr st2"
    and s3: "check_cost_model_consistency n st2 = Inr st3"
    and s5: "build_cost_constraint n (build_x n st3) = Inr st5"
    and s6: "build_reference_angle_constraint n st5 = Inr st6"
    and s7: "build_active_power_flow_equations n st6 = Inr st7"
    and s11: "build_h n (build_bb_inequality (build_bb_equality (build_AA_inequality (build_AA_equality
        (build_branch_flow_limit_constraint n (build_generation_limit_constraint n st7))))))
       = Inr st11"
    and s12: "build_c n st11 = Inr st"
    by (rule formulate_stages)
  let ?st1 = "build_theta_inj_source n (st0\<lparr>self_B := B, self_B_source := Bs\<rparr>)"
  from build_theta_inj_bus_Inr [OF s2] obtain v where
    e2: "st2 = ?st1\<lparr>self_theta_inj_bus := v\<rparr>" and lv: "length v = length (connected_buses n)"
    by blast
  from check_cost_model_consistency_Inr [OF s3] obtain t where
    e3: "st3 = st2\<lparr>self_solver_type := t\<rparr>" and tt: "t = ''linear'' \<or> t = ''quadratic''"
    by blast
  from build_cost_constraint_Inr [OF s5] obtain a b where
    e5: "st5 = (build_x n st3)\<lparr>self_aa_cost := a, self_bb_cost := b\<rparr>"
    and quad: "self_solver_type (build_x n st3) = ''quadratic'' \<longrightarrow> a = [] \<and> b = []" by blast
  from build_reference_angle_constraint_Inr [OF s6] have
    ne: "connected_buses n \<noteq> []" and few: "length (slack_buses n) \<le> 1"
    and e6: "st6 = st5\<lparr>self_aa_ref :=
                   [(replicate (length (connected_buses n) + length (online_generators n)
                       + (if self_solver_type st5 = ''linear'' then length (online_generators n) else 0)) 0)
                    [reference_index n := 1]],
                 self_bb_ref :=
                   [v_phase_guess (bus_obj n (connected_buses n ! reference_index n))]\<rparr>"
    by blast+
  from build_active_power_flow_equations_Inr [OF s7] obtain j inc where
    nl: "self_solver_type st6 \<noteq> ''linear''"
    and loop: "bus_generator_loop n (connected_buses n) (connected_buses n)
               (0, spzeros (length (connected_buses n)) (length (online_generators n))) = Inr (j, inc)"
    and li: "length inc = length (connected_buses n)"
    and e7: "st7 = st6\<lparr>self_aa_mismatch :=
                     hcat (hcat (self_B st6) (mat_neg inc)) (spzeros (length (connected_buses n)) 0),
                   self_bb_mismatch :=
                     map (\<lambda>((d, g), inj). - (d + g) - inj)
                       (zip (zip (map (\<lambda>v. p_demand (bus_obj n v)) (connected_buses n))
                                 (map (\<lambda>v. g_shunt (bus_obj n v)) (connected_buses n)))
                            (self_theta_inj_bus st6))\<rparr>"
    by blast
  from build_h_Inr [OF s11] obtain h where
    e11: "st11 = (build_bb_inequality (build_bb_equality (build_AA_inequality (build_AA_equality
        (build_branch_flow_limit_constraint n (build_generation_limit_constraint n st7))))))
           \<lparr>self_hh := h\<rparr>" by blast
  from build_c_Inr [OF s12] obtain c where e12: "st = st11\<lparr>self_cc := c\<rparr>" by blast
  have t5: "self_solver_type st5 = t"
    by (simp add: e5 build_x_solver_type e3)
  have t6: "self_solver_type st6 = t" by (simp add: e6 t5)
  from tt nl t6 have tq: "t = ''quadratic''" by simp
  then have ab: "a = []" "b = []" using quad by (simp_all add: build_x_solver_type e3)
  define x where "x = self_x0 (build_x n st3)"
  have e4: "build_x n st3 = st3\<lparr>self_x0 := x\<rparr>"
    unfolding x_def by (rule build_x_eq)
  define ts where "ts = self_theta_inj_source (build_theta_inj_source n st0)"
  have e1: "?st1 = st0\<lparr>self_B := B, self_B_source := Bs, self_theta_inj_source := ts\<rparr>"
    unfolding ts_def
    by (subst build_theta_inj_source_eq, subst build_theta_inj_source_indep [of n _ st0]) simp
  have E2: "st2 = st0\<lparr>self_B := B, self_B_source := Bs, self_theta_inj_source := ts,
               self_theta_inj_bus := v\<rparr>"
    unfolding e2 e1 by (rule refl)
  have E3: "st3 = st0\<lparr>self_B := B, self_B_source := Bs, self_theta_inj_source := ts,
               self_theta_inj_bus := v, self_solver_type := ''quadratic''\<rparr>"
    unfolding e3 E2 tq by (rule refl)
  have E4: "build_x n st3 = st0\<lparr>self_B := B, self_B_source := Bs, self_theta_inj_source := ts,
               self_theta_inj_bus := v, self_solver_type := ''quadratic'', self_x0 := x\<rparr>"
    by (subst e4, unfold E3, rule refl)
  have E5: "st5 = st0\<lparr>self_B := B, self_B_source := Bs, self_theta_inj_source := ts,
               self_theta_inj_bus := v, self_solver_type := ''quadratic'', self_x0 := x,
               self_aa_cost := [], self_bb_cost := []\<rparr>"
    unfolding e5 ab E4 by (rule refl)
  have E6: "st6 = st0\<lparr>self_B := B, self_B_source := Bs, self_theta_inj_source := ts,
               self_theta_inj_bus := v, self_solver_type := ''quadratic'', self_x0 := x,
               self_aa_cost := [], self_bb_cost := [],
               self_aa_ref :=
                   [(replicate (length (connected_buses n) + length (online_generators n)) 0)
                    [reference_index n := 1]],
               self_bb_ref :=
                   [v_phase_guess (bus_obj n (connected_buses n ! reference_index n))]\<rparr>"
    using e6 unfolding t5 tq E5 by simp
  have B6: "self_B st6 = B" by (simp add: E6)
  have v6: "self_theta_inj_bus st6 = v" by (simp add: E6)
  have st7: "st7 = st0\<lparr>self_B := B, self_B_source := Bs,
               self_theta_inj_source := ts,
               self_theta_inj_bus := v,
               self_solver_type := ''quadratic'',
               self_x0 := x,
               self_aa_cost := [], self_bb_cost := [],
               self_aa_ref :=
                   [(replicate (length (connected_buses n) + length (online_generators n)) 0)
                    [reference_index n := 1]],
               self_bb_ref :=
                   [v_phase_guess (bus_obj n (connected_buses n ! reference_index n))],
               self_aa_mismatch :=
                     hcat (hcat B (mat_neg inc)) (spzeros (length (connected_buses n)) 0),
               self_bb_mismatch :=
                     map (\<lambda>((d, g), inj). - (d + g) - inj)
                       (zip (zip (map (\<lambda>v. p_demand (bus_obj n v)) (connected_buses n))
                                 (map (\<lambda>v. g_shunt (bus_obj n v)) (connected_buses n)))
                            v)\<rparr>"
    unfolding e7 B6 v6 unfolding E6 by (rule refl)
  have final: "st = (build_bb_inequality (build_bb_equality (build_AA_inequality (build_AA_equality
        (build_branch_flow_limit_constraint n (build_generation_limit_constraint n st7))))))
          \<lparr>self_hh := h, self_cc := c\<rparr>"
    unfolding e12 e11 by (rule refl)
  show ?thesis
    apply (rule exI [of _ B], rule exI [of _ Bs], rule exI [of _ j], rule exI [of _ inc])
    apply (rule exI [of _ v], rule exI [of _ h], rule exI [of _ c], rule exI [of _ x])
    apply (intro conjI)
          apply (rule msm)
         apply (rule loop)
        apply (rule li)
       apply (rule lv)
      apply (rule ne)
     apply (rule few)
    apply (unfold ts_def [symmetric])
    apply (rule final [unfolded st7])
    done
qed


lemma assembled_fields:
  fixes s :: dcopf and n :: network and h :: matrix and c :: vector
  defines "a \<equiv> (build_bb_inequality (build_bb_equality (build_AA_inequality (build_AA_equality
        (build_branch_flow_limit_constraint n (build_generation_limit_constraint n s))))))
          \<lparr>self_hh := h, self_cc := c\<rparr>"
  shows "self_AA_eq a = self_aa_cost s @ self_aa_ref s @ self_aa_mismatch s"
    and "self_bb_eq a = self_bb_cost s @ self_bb_ref s @ self_bb_mismatch s"
    and "self_AA_ieq a = self_aa_generation (build_generation_limit_constraint n s)"
    and "self_bb_ieq a = self_bb_generation (build_generation_limit_constraint n s)"
    and "self_aa_flow a = self_aa_flow (build_branch_flow_limit_constraint n s)"
    and "self_bb_flow a = self_bb_flow (build_branch_flow_limit_constraint n s)"
    and "self_aa_cost a = self_aa_cost s" and "self_bb_cost a = self_bb_cost s"
    and "self_theta_inj_bus a = self_theta_inj_bus s"
    and "self_theta_inj_source a = self_theta_inj_source s"
  unfolding a_def
  by (simp_all add: build_bb_inequality_def build_bb_equality_def build_AA_inequality_def
      build_AA_equality_def build_branch_flow_limit_constraint_def
      build_generation_limit_constraint_def Let_def)

lemma length_mat_neg: "length (mat_neg M) = length M"
  by (simp add: mat_neg_def)

lemma generation_block:
  "self_solver_type s = ''quadratic'' \<Longrightarrow>
   self_aa_generation (build_generation_limit_constraint n s)
     = map (\<lambda>r. replicate (length (connected_buses n)) 0 @ r) (mat_neg (eye (length (online_generators n))))
       @ map (\<lambda>r. replicate (length (connected_buses n)) 0 @ r) (eye (length (online_generators n)))"
  "self_bb_generation (build_generation_limit_constraint n s)
     = map (\<lambda>g. - p_min_bid (generator_obj n g)) (online_generators n)
       @ map (\<lambda>g. p_max_bid (generator_obj n g)) (online_generators n)"
  by (simp_all add: build_generation_limit_constraint_def Let_def hcat_spzeros_left
      hcat_spzeros_right length_eye length_mat_neg length_hcat)

lemma flow_block:
  "self_solver_type s = ''quadratic'' \<Longrightarrow>
   self_aa_flow (build_branch_flow_limit_constraint n s)
     = hcat (hcat (self_B_source s)
               (spzeros (length (online_branches n)) (length (online_generators n))))
            (spzeros (length (online_branches n)) 0)
       @ hcat (hcat (mat_neg (self_B_source s))
               (spzeros (length (online_branches n)) (length (online_generators n))))
            (spzeros (length (online_branches n)) 0)"
  "self_bb_flow (build_branch_flow_limit_constraint n s)
     = map (\<lambda>(s, t). s - t)
         (zip (map (\<lambda>e. s_max (branch_obj n e)) (online_branches n)) (self_theta_inj_source s))
       @ map (\<lambda>(s, t). s + t)
         (zip (map (\<lambda>e. s_max (branch_obj n e)) (online_branches n)) (self_theta_inj_source s))"
  by (simp_all add: build_branch_flow_limit_constraint_def Let_def)

lemma mismatch_rows:
  assumes "length inc = nb"
  shows "hcat (hcat B (mat_neg inc)) (spzeros nb 0) = map (\<lambda>(b, g). b @ map uminus g) (zip B inc)"
proof -
  have "length (hcat B (mat_neg inc)) \<le> nb"
    using assms by (simp add: length_hcat length_mat_neg)
  then have "hcat (hcat B (mat_neg inc)) (spzeros nb 0) = hcat B (mat_neg inc)"
    by (rule hcat_spzeros_right)
  then show ?thesis by (simp only: hcat_mat_neg)
qed

lemma map_zip_zip_same:
  "map (\<lambda>((d, g), inj). h d g inj) (zip (zip (map f xs) (map g xs)) v)
   = map (\<lambda>(u, inj). h (f u) (g u) inj) (zip xs v)"
proof (induction xs arbitrary: v)
  case Nil
  show ?case by simp
next
  case (Cons u xs)
  show ?case by (cases v) (simp_all add: Cons.IH)
qed

lemma mismatch_rhs:
  "map (\<lambda>((d, g), inj). - (d + g) - inj)
     (zip (zip (map (\<lambda>v. p_demand (bus_obj n v)) buses) (map (\<lambda>v. g_shunt (bus_obj n v)) buses)) v)
   = map (\<lambda>(u, inj). - (p_demand (bus_obj n u) + g_shunt (bus_obj n u)) - inj) (zip buses v)"
  by (rule map_zip_zip_same)

text \<open>
  C1. Whenever the formulation is completed, the equality system handed to the solver
  is, from top to bottom: the cost block, one row that fixes the angle of the reference
  bus to its initial guess, and the power balance: row \<open>i\<close> is row \<open>i\<close> of \<open>B\<close>
  followed by the negated row \<open>i\<close> of the bus-generator incidence matrix, with the
  right-hand side \<open>- (p_demand + g_shunt)\<close> minus the bus phase-shift injection of bus
  \<open>i\<close>, one for each connected bus. The formulation is completed with polynomial costs
  only (with piecewise linear costs \<^verbatim>\<open>_build_active_power_flow_equations\<close> raises), so the
  cost block of a completed formulation is the empty block of the polynomial model.
\<close>

theorem equality_system_layout:
  assumes "formulate msm n st0 = Inr st"
  shows "\<exists>B Bs j inc.
      msm n = Inr (B, Bs)
    \<and> bus_generator_loop n (connected_buses n) (connected_buses n)
        (0, spzeros (length (connected_buses n)) (length (online_generators n))) = Inr (j, inc)
    \<and> length inc = length (connected_buses n)
    \<and> length (self_theta_inj_bus st) = length (connected_buses n)
    \<and> self_aa_cost st = [] \<and> self_bb_cost st = []
    \<and> qp_A (qp_problem_of st) = self_AA_eq st
    \<and> qp_b (qp_problem_of st) = self_bb_eq st
    \<and> self_AA_eq st
        = self_aa_cost st
          @ [(replicate (length (connected_buses n) + length (online_generators n)) 0)
               [reference_index n := 1]]
          @ map (\<lambda>(b, g). b @ map uminus g) (zip B inc)
    \<and> self_bb_eq st
        = self_bb_cost st
          @ [v_phase_guess (bus_obj n (connected_buses n ! reference_index n))]
          @ map (\<lambda>(u, inj). - (p_demand (bus_obj n u) + g_shunt (bus_obj n u)) - inj)
              (zip (connected_buses n) (self_theta_inj_bus st))"
proof -
  from formulate_fields [OF assms] obtain B Bs j inc v h c x where
    msm: "msm n = Inr (B, Bs)"
    and loop: "bus_generator_loop n (connected_buses n) (connected_buses n)
        (0, spzeros (length (connected_buses n)) (length (online_generators n))) = Inr (j, inc)"
    and li: "length inc = length (connected_buses n)"
    and lv: "length v = length (connected_buses n)"
    and st: "st = (build_bb_inequality (build_bb_equality (build_AA_inequality (build_AA_equality
        (build_branch_flow_limit_constraint n (build_generation_limit_constraint n
          (st0\<lparr>self_B := B, self_B_source := Bs,
               self_theta_inj_source :=
                 self_theta_inj_source (build_theta_inj_source n st0),
               self_theta_inj_bus := v,
               self_solver_type := ''quadratic'',
               self_x0 := x,
               self_aa_cost := [], self_bb_cost := [],
               self_aa_ref :=
                   [(replicate (length (connected_buses n) + length (online_generators n)) 0)
                    [reference_index n := 1]],
               self_bb_ref :=
                   [v_phase_guess (bus_obj n (connected_buses n ! reference_index n))],
               self_aa_mismatch :=
                     hcat (hcat B (mat_neg inc)) (spzeros (length (connected_buses n)) 0),
               self_bb_mismatch :=
                     map (\<lambda>((d, g), inj). - (d + g) - inj)
                       (zip (zip (map (\<lambda>v. p_demand (bus_obj n v)) (connected_buses n))
                                 (map (\<lambda>v. g_shunt (bus_obj n v)) (connected_buses n)))
                            v)\<rparr>)))))))
          \<lparr>self_hh := h, self_cc := c\<rparr>"
    by blast
  let ?s = "st0\<lparr>self_B := B, self_B_source := Bs,
               self_theta_inj_source :=
                 self_theta_inj_source (build_theta_inj_source n st0),
               self_theta_inj_bus := v,
               self_solver_type := ''quadratic'',
               self_x0 := x,
               self_aa_cost := [], self_bb_cost := [],
               self_aa_ref :=
                   [(replicate (length (connected_buses n) + length (online_generators n)) 0)
                    [reference_index n := 1]],
               self_bb_ref :=
                   [v_phase_guess (bus_obj n (connected_buses n ! reference_index n))],
               self_aa_mismatch :=
                     hcat (hcat B (mat_neg inc)) (spzeros (length (connected_buses n)) 0),
               self_bb_mismatch :=
                     map (\<lambda>((d, g), inj). - (d + g) - inj)
                       (zip (zip (map (\<lambda>v. p_demand (bus_obj n v)) (connected_buses n))
                                 (map (\<lambda>v. g_shunt (bus_obj n v)) (connected_buses n)))
                            v)\<rparr>"
  have c1: "self_aa_cost ?s = []" and c2: "self_bb_cost ?s = []"
    and r1: "self_aa_ref ?s = [(replicate (length (connected_buses n) + length (online_generators n)) 0)
                    [reference_index n := 1]]"
    and r2: "self_bb_ref ?s = [v_phase_guess (bus_obj n (connected_buses n ! reference_index n))]"
    and m1: "self_aa_mismatch ?s = hcat (hcat B (mat_neg inc)) (spzeros (length (connected_buses n)) 0)"
    and m2: "self_bb_mismatch ?s = map (\<lambda>((d, g), inj). - (d + g) - inj)
                       (zip (zip (map (\<lambda>v. p_demand (bus_obj n v)) (connected_buses n))
                                 (map (\<lambda>v. g_shunt (bus_obj n v)) (connected_buses n)))
                            v)"
    and t1: "self_theta_inj_bus ?s = v"
    by simp_all
  have tb: "self_theta_inj_bus st = v"
    unfolding st assembled_fields by (rule t1)
  have ac: "self_aa_cost st = []"
    unfolding st assembled_fields by (rule c1)
  have bc: "self_bb_cost st = []"
    unfolding st assembled_fields by (rule c2)
  have A: "self_AA_eq st = self_aa_cost st
          @ [(replicate (length (connected_buses n) + length (online_generators n)) 0)
               [reference_index n := 1]]
          @ map (\<lambda>(b, g). b @ map uminus g) (zip B inc)"
    unfolding ac unfolding st assembled_fields unfolding c1 r1 m1
    unfolding mismatch_rows [OF li] by (rule refl)
  have b: "self_bb_eq st = self_bb_cost st
          @ [v_phase_guess (bus_obj n (connected_buses n ! reference_index n))]
          @ map (\<lambda>(u, inj). - (p_demand (bus_obj n u) + g_shunt (bus_obj n u)) - inj)
              (zip (connected_buses n) (self_theta_inj_bus st))"
    unfolding bc tb unfolding st assembled_fields unfolding c2 r2 m2
    unfolding mismatch_rhs by (rule refl)
  have q: "qp_A (qp_problem_of st) = self_AA_eq st" "qp_b (qp_problem_of st) = self_bb_eq st"
    by (simp_all add: qp_problem_of_def)
  have lt: "length (self_theta_inj_bus st) = length (connected_buses n)"
    unfolding tb by (rule lv)
  show ?thesis
    apply (rule exI [of _ B], rule exI [of _ Bs], rule exI [of _ j], rule exI [of _ inc])
    apply (intro conjI)
             apply (rule msm)
            apply (rule loop)
           apply (rule li)
          apply (rule lt)
         apply (rule ac)
        apply (rule bc)
       apply (rule q(1))
      apply (rule q(2))
     apply (rule A)
    apply (rule b)
    done
qed

text \<open>The formulation of the example case, evaluated once for the statements below.\<close>

lemma example_formulate:
  "(case formulate example_susceptance example_case new_routine of
      Inr st \<Rightarrow>
        self_AA_eq st = [[1, 0, 0, 0], [1 / 2, - (1 / 2), - 1, - 1], [- (1 / 2), 1 / 2, 0, 0]]
        \<and> self_bb_eq st = [0, 2 * py_pi, - 50 - 2 * py_pi]
        \<and> self_theta_inj_bus st = [- (2 * py_pi), 2 * py_pi]
        \<and> self_AA_ieq st = [[0, 0, - 1, 0], [0, 0, 0, - 1], [0, 0, 1, 0], [0, 0, 0, 1]]
        \<and> self_bb_ieq st = [- 10, - 10, 100, 100]
        \<and> self_aa_flow st = [[1 / 2, - (1 / 2), 0, 0], [- (1 / 2), 1 / 2, 0, 0]]
        \<and> self_bb_flow st = [100 + 2 * py_pi, 100 - 2 * py_pi]
    | Inl e \<Rightarrow> False)"
  by code_simp

text \<open>
  The theorem on the example case: the reference row of bus A, then the balance rows
  of A and B; the injections \<open>- 2 pi\<close> and \<open>2 pi\<close> enter the right-hand sides.
\<close>

theorem equality_system_layout_witness:
  "(case formulate example_susceptance example_case new_routine of
      Inr st \<Rightarrow>
        self_aa_cost st = [] \<and> self_bb_cost st = []
        \<and> qp_A (qp_problem_of st)
            = [[1, 0, 0, 0], [1 / 2, - (1 / 2), - 1, - 1], [- (1 / 2), 1 / 2, 0, 0]]
        \<and> qp_b (qp_problem_of st) = [0, 2 * py_pi, - 50 - 2 * py_pi]
        \<and> self_theta_inj_bus st = [- (2 * py_pi), 2 * py_pi]
    | Inl e \<Rightarrow> False)"
proof -
  from example_formulate
  obtain st where f: "formulate example_susceptance example_case new_routine = Inr st"
    and A: "self_AA_eq st = [[1, 0, 0, 0], [1 / 2, - (1 / 2), - 1, - 1], [- (1 / 2), 1 / 2, 0, 0]]"
    and b: "self_bb_eq st = [0, 2 * py_pi, - 50 - 2 * py_pi]"
    and t: "self_theta_inj_bus st = [- (2 * py_pi), 2 * py_pi]"
    by (auto split: sum.splits)
  from equality_system_layout [OF f] have
    "self_aa_cost st = []" "self_bb_cost st = []"
    "qp_A (qp_problem_of st) = self_AA_eq st" "qp_b (qp_problem_of st) = self_bb_eq st"
    by blast+
  with f A b t show ?thesis by simp
qed

text \<open>
  C2. Whenever the formulation is completed, the inequality system handed to the
  solver is the generator limits and nothing else: \<open>n_generators\<close> rows of zeros for
  the angles followed by the negated identity, with right-hand sides \<open>- p_min_bid\<close>,
  then \<open>n_generators\<close> rows of zeros followed by the identity, with right-hand sides
  \<open>p_max_bid\<close>: two rows for each online generator. The branch flow limits are computed
  (\<^verbatim>\<open>_aa_flow\<close> and \<^verbatim>\<open>_bb_flow\<close> hold them) and are not part of the system.
\<close>

theorem inequality_system_generation_only:
  assumes "formulate msm n st0 = Inr st"
  shows "\<exists>B Bs.
      msm n = Inr (B, Bs)
    \<and> qp_G (qp_problem_of st) = self_AA_ieq st
    \<and> qp_h (qp_problem_of st) = self_bb_ieq st
    \<and> self_AA_ieq st
        = map (\<lambda>r. replicate (length (connected_buses n)) 0 @ r)
            (mat_neg (eye (length (online_generators n))))
          @ map (\<lambda>r. replicate (length (connected_buses n)) 0 @ r)
              (eye (length (online_generators n)))
    \<and> self_bb_ieq st
        = map (\<lambda>g. - p_min_bid (generator_obj n g)) (online_generators n)
          @ map (\<lambda>g. p_max_bid (generator_obj n g)) (online_generators n)
    \<and> length (self_AA_ieq st) = 2 * length (online_generators n)
    \<and> length (self_bb_ieq st) = 2 * length (online_generators n)
    \<and> self_aa_flow st
        = hcat (hcat Bs (spzeros (length (online_branches n)) (length (online_generators n))))
            (spzeros (length (online_branches n)) 0)
          @ hcat (hcat (mat_neg Bs)
                   (spzeros (length (online_branches n)) (length (online_generators n))))
              (spzeros (length (online_branches n)) 0)
    \<and> self_bb_flow st
        = map (\<lambda>(s, t). s - t)
            (zip (map (\<lambda>e. s_max (branch_obj n e)) (online_branches n)) (self_theta_inj_source st))
          @ map (\<lambda>(s, t). s + t)
            (zip (map (\<lambda>e. s_max (branch_obj n e)) (online_branches n)) (self_theta_inj_source st))"
proof -
  from formulate_fields [OF assms] obtain B Bs j inc v h c x where
    msm: "msm n = Inr (B, Bs)"
    and st: "st = (build_bb_inequality (build_bb_equality (build_AA_inequality (build_AA_equality
        (build_branch_flow_limit_constraint n (build_generation_limit_constraint n
          (st0\<lparr>self_B := B, self_B_source := Bs,
               self_theta_inj_source :=
                 self_theta_inj_source (build_theta_inj_source n st0),
               self_theta_inj_bus := v,
               self_solver_type := ''quadratic'',
               self_x0 := x,
               self_aa_cost := [], self_bb_cost := [],
               self_aa_ref :=
                   [(replicate (length (connected_buses n) + length (online_generators n)) 0)
                    [reference_index n := 1]],
               self_bb_ref :=
                   [v_phase_guess (bus_obj n (connected_buses n ! reference_index n))],
               self_aa_mismatch :=
                     hcat (hcat B (mat_neg inc)) (spzeros (length (connected_buses n)) 0),
               self_bb_mismatch :=
                     map (\<lambda>((d, g), inj). - (d + g) - inj)
                       (zip (zip (map (\<lambda>v. p_demand (bus_obj n v)) (connected_buses n))
                                 (map (\<lambda>v. g_shunt (bus_obj n v)) (connected_buses n)))
                            v)\<rparr>)))))))
          \<lparr>self_hh := h, self_cc := c\<rparr>"
    by blast
  let ?s = "st0\<lparr>self_B := B, self_B_source := Bs,
               self_theta_inj_source :=
                 self_theta_inj_source (build_theta_inj_source n st0),
               self_theta_inj_bus := v,
               self_solver_type := ''quadratic'',
               self_x0 := x,
               self_aa_cost := [], self_bb_cost := [],
               self_aa_ref :=
                   [(replicate (length (connected_buses n) + length (online_generators n)) 0)
                    [reference_index n := 1]],
               self_bb_ref :=
                   [v_phase_guess (bus_obj n (connected_buses n ! reference_index n))],
               self_aa_mismatch :=
                     hcat (hcat B (mat_neg inc)) (spzeros (length (connected_buses n)) 0),
               self_bb_mismatch :=
                     map (\<lambda>((d, g), inj). - (d + g) - inj)
                       (zip (zip (map (\<lambda>v. p_demand (bus_obj n v)) (connected_buses n))
                                 (map (\<lambda>v. g_shunt (bus_obj n v)) (connected_buses n)))
                            v)\<rparr>"
  have q: "self_solver_type ?s = ''quadratic''" by simp
  have bs: "self_B_source ?s = Bs" by simp
  have G: "self_AA_ieq st
        = map (\<lambda>r. replicate (length (connected_buses n)) 0 @ r)
            (mat_neg (eye (length (online_generators n))))
          @ map (\<lambda>r. replicate (length (connected_buses n)) 0 @ r)
              (eye (length (online_generators n)))"
    unfolding st assembled_fields by (rule generation_block(1) [OF q])
  have hh: "self_bb_ieq st
        = map (\<lambda>g. - p_min_bid (generator_obj n g)) (online_generators n)
          @ map (\<lambda>g. p_max_bid (generator_obj n g)) (online_generators n)"
    unfolding st assembled_fields by (rule generation_block(2))
  have ts: "self_theta_inj_source st = self_theta_inj_source ?s"
    unfolding st assembled_fields by (rule refl)
  have F: "self_aa_flow st
        = hcat (hcat Bs (spzeros (length (online_branches n)) (length (online_generators n))))
            (spzeros (length (online_branches n)) 0)
          @ hcat (hcat (mat_neg Bs)
                   (spzeros (length (online_branches n)) (length (online_generators n))))
              (spzeros (length (online_branches n)) 0)"
    unfolding st assembled_fields unfolding flow_block(1) [OF q] unfolding bs by (rule refl)
  have Fb: "self_bb_flow st
        = map (\<lambda>(s, t). s - t)
            (zip (map (\<lambda>e. s_max (branch_obj n e)) (online_branches n)) (self_theta_inj_source st))
          @ map (\<lambda>(s, t). s + t)
            (zip (map (\<lambda>e. s_max (branch_obj n e)) (online_branches n)) (self_theta_inj_source st))"
    unfolding ts unfolding st assembled_fields by (rule flow_block(2))
  have lG: "length (self_AA_ieq st) = 2 * length (online_generators n)"
    unfolding G by (simp add: length_eye length_mat_neg)
  have lh: "length (self_bb_ieq st) = 2 * length (online_generators n)"
    unfolding hh by simp
  have qq: "qp_G (qp_problem_of st) = self_AA_ieq st" "qp_h (qp_problem_of st) = self_bb_ieq st"
    by (simp_all add: qp_problem_of_def)
  show ?thesis
    apply (rule exI [of _ B], rule exI [of _ Bs])
    apply (intro conjI)
            apply (rule msm)
           apply (rule qq(1))
          apply (rule qq(2))
         apply (rule G)
        apply (rule hh)
       apply (rule lG)
      apply (rule lh)
     apply (rule F)
    apply (rule Fb)
    done
qed


text \<open>
  The theorem on the example case: four rows for the two generators; the two
  flow-limit rows of the branch are computed and left out.
\<close>

theorem inequality_system_generation_only_witness:
  "(case formulate example_susceptance example_case new_routine of
      Inr st \<Rightarrow>
        qp_G (qp_problem_of st) = [[0, 0, - 1, 0], [0, 0, 0, - 1], [0, 0, 1, 0], [0, 0, 0, 1]]
        \<and> qp_h (qp_problem_of st) = [- 10, - 10, 100, 100]
        \<and> self_aa_flow st = [[1 / 2, - (1 / 2), 0, 0], [- (1 / 2), 1 / 2, 0, 0]]
        \<and> self_bb_flow st = [100 + 2 * py_pi, 100 - 2 * py_pi]
    | Inl e \<Rightarrow> False)"
proof -
  from example_formulate
  obtain st where f: "formulate example_susceptance example_case new_routine = Inr st"
    and G: "self_AA_ieq st = [[0, 0, - 1, 0], [0, 0, 0, - 1], [0, 0, 1, 0], [0, 0, 0, 1]]"
    and h: "self_bb_ieq st = [- 10, - 10, 100, 100]"
    and F: "self_aa_flow st = [[1 / 2, - (1 / 2), 0, 0], [- (1 / 2), 1 / 2, 0, 0]]"
    and Fb: "self_bb_flow st = [100 + 2 * py_pi, 100 - 2 * py_pi]"
    by (auto split: sum.splits)
  from inequality_system_generation_only [OF f] have
    "qp_G (qp_problem_of st) = self_AA_ieq st" "qp_h (qp_problem_of st) = self_bb_ieq st"
    by blast+
  with f G h F Fb show ?thesis by simp
qed

text \<open>
  C10. When the solver returns a status other than \<^verbatim>\<open>"optimal"\<close>, \<^verbatim>\<open>__call__\<close>
  returns the solution and leaves the network as it was: no field of a bus, a branch
  or a generator is written. And if the call changes the network at all, the
  formulation was completed and the solver returned the status \<^verbatim>\<open>"optimal"\<close>.
\<close>

theorem results_written_only_on_optimal:
  "(formulate msm n st = Inr st1 \<and> qp (qp_problem_of st1) = Inr sol \<and> status sol \<noteq> ''optimal''
      \<longrightarrow> call qp msm st n = (Inr sol, n))
   \<and> (snd (call qp msm st n) \<noteq> n
      \<longrightarrow> (\<exists>st1 sol. formulate msm n st = Inr st1 \<and> qp (qp_problem_of st1) = Inr sol
            \<and> status sol = ''optimal''))"
proof (intro conjI impI)
  assume "formulate msm n st = Inr st1 \<and> qp (qp_problem_of st1) = Inr sol \<and> status sol \<noteq> ''optimal''"
  then show "call qp msm st n = (Inr sol, n)"
    by (simp add: call_def solve_qp_def)
next
  assume changed: "snd (call qp msm st n) \<noteq> n"
  show "\<exists>st1 sol. formulate msm n st = Inr st1 \<and> qp (qp_problem_of st1) = Inr sol
            \<and> status sol = ''optimal''"
  proof (cases "formulate msm n st")
    case (Inl e)
    with changed show ?thesis by (simp add: call_def)
  next
    case (Inr st1)
    show ?thesis
    proof (cases "qp (qp_problem_of st1)")
      case (Inl e)
      with Inr changed show ?thesis by (simp add: call_def solve_qp_def)
    next
      case sol: (Inr sol)
      with Inr changed have "status sol = ''optimal''"
        by (auto simp: call_def solve_qp_def split: if_splits)
      with Inr sol show ?thesis by blast
    qed
  qed
qed


text \<open>
  What an optimal status writes at least: the amplitude of the first connected bus
  becomes 1, even if the method raises later.
\<close>

lemma for_each_preserves:
  assumes step: "\<And>a s e s'. P s \<Longrightarrow> body a s = (e, s') \<Longrightarrow> P s'"
    and init: "P s"
  shows "P (snd (for_each body xs s))"
  using init
proof (induction xs arbitrary: s)
  case Nil
  then show ?case by simp
next
  case (Cons a xs)
  obtain e s' where b: "body a s = (e, s')" by (cases "body a s")
  from step [OF Cons.prems b] have P': "P s'" .
  show ?case
  proof (cases e)
    case None
    with b Cons.IH [OF P'] show ?thesis by simp
  next
    case (Some err)
    with b P' show ?thesis by simp
  qed
qed

lemma and_then_preserves:
  assumes "P (snd r)" and "\<And>s. P s \<Longrightarrow> P (snd (k s))"
  shows "P (snd (and_then r k))"
proof (cases r)
  case (Pair e s)
  with assms show ?thesis by (cases e) auto
qed

lemma update_solution_data_amplitude:
  assumes x: "sol_x solution = Some x" and buses: "connected_buses n = b # bs"
  shows "v_amplitude (bus_obj (snd (update_solution_data n st solution)) b) = 1"
proof -
  let ?P = "\<lambda>m :: network. v_amplitude (bus_obj m b) = 1"
  have "\<exists>rest. enumerate_py (connected_buses n) = (0, b) # rest"
    by (simp add: enumerate_py_def buses upt_rec [of 0])
  then obtain rest where en: "enumerate_py (connected_buses n) = (0, b) # rest" by blast
  show ?thesis
    unfolding update_solution_data_def Let_def x option.case en
  proof (rule and_then_preserves [where P = ?P])
    show "v_amplitude (bus_obj (snd (for_each
        (\<lambda>(i, bus) m.
            case py_nth (take (length (connected_buses n)) x) i of
              Inl e \<Rightarrow> (Some e, upd_bus m bus (\<lambda>b. b\<lparr>v_amplitude := 1\<rparr>))
            | Inr a \<Rightarrow> (None, upd_bus (upd_bus m bus (\<lambda>b. b\<lparr>v_amplitude := 1\<rparr>)) bus
                                (\<lambda>b. b\<lparr>v_phase := a\<rparr>)))
        ((0, b) # rest) n)) b) = 1"
    proof (cases "py_nth (take (length (connected_buses n)) x) 0")
      case (Inl e)
      then show ?thesis by (simp add: upd_bus_def)
    next
      case (Inr a)
      have "?P (snd (for_each
        (\<lambda>(i, bus) m.
            case py_nth (take (length (connected_buses n)) x) i of
              Inl e \<Rightarrow> (Some e, upd_bus m bus (\<lambda>b. b\<lparr>v_amplitude := 1\<rparr>))
            | Inr a \<Rightarrow> (None, upd_bus (upd_bus m bus (\<lambda>b. b\<lparr>v_amplitude := 1\<rparr>)) bus
                                (\<lambda>b. b\<lparr>v_phase := a\<rparr>)))
        rest (upd_bus (upd_bus n b (\<lambda>b. b\<lparr>v_amplitude := 1\<rparr>)) b (\<lambda>b. b\<lparr>v_phase := a\<rparr>))))"
        by (rule for_each_preserves [where P = ?P])
          (auto simp: upd_bus_def split: sum.splits)
      with Inr show ?thesis by simp
    qed
  next
    fix s :: network
    assume "v_amplitude (bus_obj s b) = 1"
    then show "v_amplitude (bus_obj (snd
        (and_then (for_each
              (\<lambda>(i, generator) m.
                  case py_nth (take (length (online_generators n)) (drop (length (connected_buses n)) x)) i of
                    Inl e \<Rightarrow> (Some e, m)
                  | Inr a \<Rightarrow> (None, upd_generator m generator (\<lambda>g. g\<lparr>p_out := a, p_despatch := a\<rparr>)))
              (enumerate_py (online_generators n)) s)
          (\<lambda>n2. and_then (for_each
              (\<lambda>(j, branch) m.
                  case py_nth (map (\<lambda>v. v * base_mva n)
                      (mat_vec (self_B_source st) (take (length (connected_buses n)) x))) j of
                    Inl e \<Rightarrow> (Some e, m)
                  | Inr a \<Rightarrow>
                      (case py_nth (map uminus (map (\<lambda>v. v * base_mva n)
                          (mat_vec (self_B_source st) (take (length (connected_buses n)) x)))) j of
                         Inl e \<Rightarrow> (Some e, upd_branch m branch (\<lambda>b. b\<lparr>p_source := a\<rparr>))
                       | Inr a' \<Rightarrow>
                           (None, upd_branch m branch
                              (\<lambda>b. b\<lparr>p_source := a, p_target := a', q_source := 0, q_target := 0\<rparr>))))
              (enumerate_py (online_branches n)) n2)
          (\<lambda>n3. and_then (for_each
              (\<lambda>(i, bus) m.
                  case multiplier (sol_y solution) (i + 1) (base_mva n) of
                    Inl e \<Rightarrow> (Some e, m)
                  | Inr a \<Rightarrow>
                      (None, upd_bus m bus
                         (\<lambda>b. b\<lparr>p_lambda := a, q_lambda := 0, mu_v_min := 0, mu_v_max := 0\<rparr>)))
              ((0, b) # rest) n3)
          (\<lambda>n4. and_then (for_each
              (\<lambda>(j, branch) m.
                  (None, upd_branch m branch (\<lambda>b. b\<lparr>mu_s_source := 0, mu_s_target := 0\<rparr>)))
              (enumerate_py (online_branches n)) n4)
          (\<lambda>n5. and_then (for_each
              (\<lambda>(k, generator) m.
                  case multiplier (sol_z solution) k (base_mva n) of
                    Inl e \<Rightarrow> (Some e, m)
                  | Inr a \<Rightarrow>
                      (case multiplier (sol_z solution) (k + length (online_generators n)) (base_mva n) of
                         Inl e \<Rightarrow> (Some e, upd_generator m generator (\<lambda>g. g\<lparr>mu_p_min := a\<rparr>))
                       | Inr a' \<Rightarrow>
                           (None, upd_generator (upd_generator m generator (\<lambda>g. g\<lparr>mu_p_min := a\<rparr>))
                              generator
                              (\<lambda>g. g\<lparr>mu_p_max := a', mu_q_min := 0, mu_q_max := 0\<rparr>))))
              (enumerate_py (online_generators n)) n5)
          (\<lambda>n6. and_then (for_each
              (\<lambda>branch m.
                  (None, upd_branch m branch (\<lambda>b. b\<lparr>mu_s_source := 0, mu_s_target := 0\<rparr>)))
              (filter (\<lambda>e. e \<notin> set (online_branches n)) (branches n)) n6)
          (\<lambda>n7. for_each
              (\<lambda>generator m.
                  (None, upd_generator m generator
                     (\<lambda>g. g\<lparr>mu_p_min := 0, mu_p_max := 0, mu_q_min := 0, mu_q_max := 0\<rparr>)))
              (filter (\<lambda>g. g \<notin> set (online_generators n)) (all_generators n)) n7)))))))) b) = 1"
      by (intro and_then_preserves [where P = ?P] for_each_preserves [where P = ?P])
        (auto simp: upd_bus_def upd_branch_def upd_generator_def split: sum.splits)
  qed
qed

lemma call_optimal:
  assumes "formulate msm n st = Inr st1" and "qp (qp_problem_of st1) = Inr sol"
    and "status sol = ''optimal''"
  shows "snd (call qp msm st n) = snd (update_solution_data n (st1\<lparr>self_x := sol_x sol\<rparr>) sol)"
  using assms by (simp add: call_def solve_qp_def split: prod.splits option.splits)

text \<open>
  The theorem on the example case: the solver that gives up leaves the case as it
  is; the solver that reports an optimum changes it (the amplitude of bus A was 0 and
  becomes 1).
\<close>

theorem results_written_only_on_optimal_witness:
  "call unknown_qp example_susceptance new_routine example_case
     = (Inr \<lparr> status = ''unknown'', sol_x = None, sol_s = None, sol_y = None, sol_z = None \<rparr>,
        example_case)
   \<and> v_amplitude (bus_obj example_case 0) = 0
   \<and> v_amplitude (bus_obj (snd (call optimal_qp example_susceptance new_routine example_case)) 0) = 1
   \<and> (case formulate example_susceptance example_case new_routine of
        Inr st1 \<Rightarrow> (case optimal_qp (qp_problem_of st1) of
                      Inr sol \<Rightarrow> status sol = ''optimal'' | Inl e \<Rightarrow> False)
      | Inl e \<Rightarrow> False)"
proof -
  let ?unknown = "\<lparr> status = ''unknown'', sol_x = None, sol_s = None, sol_y = None, sol_z = None \<rparr>"
  let ?optimal = "\<lparr> status = ''optimal'', sol_x = Some [0, 1, 20, 30], sol_s = Some [1, 1, 1, 1],
           sol_y = Some [5, 6, 7], sol_z = Some [1, 2, 3, 4] \<rparr>"
  from example_formulate
  obtain st1 where f: "formulate example_susceptance example_case new_routine = Inr st1"
    by (auto split: sum.splits)
  have u: "unknown_qp (qp_problem_of st1) = Inr ?unknown"
    by (simp add: unknown_qp_def)
  have o: "optimal_qp (qp_problem_of st1) = Inr ?optimal"
    by (simp add: optimal_qp_def)
  note t = results_written_only_on_optimal [of example_susceptance example_case new_routine st1
      unknown_qp ?unknown]
  from t [THEN conjunct1] f u
  have a: "call unknown_qp example_susceptance new_routine example_case = (Inr ?unknown, example_case)"
    by simp
  have b: "v_amplitude (bus_obj example_case 0) = 0"
    by (simp add: example_case_def example_bus_a_def)
  have "connected_buses example_case = [0, 1]" by (simp add: example_case_def)
  from update_solution_data_amplitude [OF _ this, of ?optimal "[0, 1, 20, 30]"]
  have "v_amplitude (bus_obj (snd (update_solution_data example_case
          (st1\<lparr>self_x := sol_x ?optimal\<rparr>) ?optimal)) 0) = 1"
    by simp
  with call_optimal [where qp = optimal_qp and sol = "?optimal", OF f o]
  have c: "v_amplitude (bus_obj (snd (call optimal_qp example_susceptance new_routine example_case)) 0) = 1"
    by simp
  from b c have changed: "snd (call optimal_qp example_susceptance new_routine example_case) \<noteq> example_case"
    by auto
  note t' = results_written_only_on_optimal [of example_susceptance example_case new_routine st1
      optimal_qp]
  from t' [THEN conjunct2] changed obtain st1' sol where
    "formulate example_susceptance example_case new_routine = Inr st1'"
    "optimal_qp (qp_problem_of st1') = Inr sol" "status sol = ''optimal''"
    by blast
  then have d: "(case formulate example_susceptance example_case new_routine of
        Inr st1 \<Rightarrow> (case optimal_qp (qp_problem_of st1) of
                      Inr sol \<Rightarrow> status sol = ''optimal'' | Inl e \<Rightarrow> False)
      | Inl e \<Rightarrow> False)"
    by simp
  show ?thesis by (intro conjI a b c d)
qed

end
